theory Spec2Isabelle
  imports Main "HOL-Library.Word"
begin

unbundle bit_operations_syntax

chapter \<open>The pipeline loader and command-packet compiler: model\<close>

section \<open>Machine integers, results, utility functions\<close>

type_synonym uint8 = "8 word"
type_synonym uint16 = "16 word"
type_synonym uint32 = "32 word"
type_synonym uint64 = "64 word"
type_synonym gpusize = "64 word"
type_synonym size_t = "64 word"

text \<open>
  \<open>Pal::Result\<close>: the codes the modelled functions produce themselves, and
  \<open>ErrorOther\<close> for any further code handed through from a collaborator
  (memory manager, ELF parser).
\<close>

datatype Result =
    Success
  | ErrorUnavailable
  | ErrorInvalidPointer
  | ErrorInvalidMemorySize
  | ErrorOutOfGpuMemory
  | ErrorOther nat

text \<open>
  Modelled from the spec: \<open>Util::Pow2Align\<close> (palInlineFuncs.h) is not among the
  sources. The spec calls it \<open>round_up(value, alignment)\<close>; its name restricts it to
  power-of-two alignments, where rounding up an unsigned 64-bit integer is the mask
  computation below. Lemma \<open>Pow2Align_round_up\<close> shows that for a power-of-two
  alignment, and as long as the rounded value fits into 64 bits, the result is
  \<open>round_up\<close> of the spec.
\<close>

definition Pow2Align :: "uint64 \<Rightarrow> uint64 \<Rightarrow> uint64" where
  "Pow2Align v alignment = (v + alignment - 1) AND NOT (alignment - 1)"

text \<open>The spec's \<open>round_up\<close> on unbounded naturals: the least multiple of \<open>a\<close> that is at least \<open>n\<close>.\<close>

definition round_up :: "nat \<Rightarrow> nat \<Rightarrow> nat" where
  "round_up n a = ((n + a - 1) div a) * a"

definition IsPowerOfTwo :: "uint64 \<Rightarrow> bool" where
  "IsPowerOfTwo a = (\<exists>k \<in> {0..<64::nat}. a = 2 ^ k)"

text \<open>
  Modelled from the spec: \<open>Util::LowPart\<close> (palInlineFuncs.h) is not among the
  sources, and the spec only says that the GPU address of a performance buffer is
  recorded. By its name and by the 32-bit register the result is written to, it is the
  low 32 bits of a 64-bit value.
\<close>

definition LowPart :: "uint64 \<Rightarrow> uint32" where
  "LowPart v = ucast v"


text \<open>
  CPU memory is a store from 64-bit addresses to bytes; \<open>memcpy\<close> and \<open>memset\<close>
  return the updated store. \<open>VoidPtrInc\<close> and \<open>VoidPtrAlign\<close> are pointer
  arithmetic on the 64-bit address.
\<close>

type_synonym cpu_memory = "size_t \<Rightarrow> uint8"

definition memcpy :: "cpu_memory \<Rightarrow> size_t \<Rightarrow> uint8 list \<Rightarrow> size_t \<Rightarrow> cpu_memory" where
  "memcpy mem dst src n = (\<lambda>a. if a - dst < n then src ! unat (a - dst) else mem a)"

definition memset :: "cpu_memory \<Rightarrow> size_t \<Rightarrow> uint8 \<Rightarrow> size_t \<Rightarrow> cpu_memory" where
  "memset mem dst v n = (\<lambda>a. if a - dst < n then v else mem a)"

definition VoidPtrInc :: "size_t \<Rightarrow> size_t \<Rightarrow> size_t" where
  "VoidPtrInc p numBytes = p + numBytes"

definition VoidPtrAlign :: "size_t \<Rightarrow> size_t \<Rightarrow> size_t" where
  "VoidPtrAlign p alignment = Pow2Align p alignment"

text \<open>
  A write to a C array at an index outside the array has no defined behaviour, nor has
  a copy of more bytes than the source or the destination has; the model stops there
  with a fault that names the index, or the number of bytes, and the size of the array.
\<close>

datatype Fault = OutOfBoundsWrite nat nat | OutOfBoundsRead nat nat

definition array_write :: "'a list \<Rightarrow> nat \<Rightarrow> 'a \<Rightarrow> Fault + 'a list" where
  "array_write xs i v =
     (if i < length xs then Inr (xs[i := v]) else Inl (OutOfBoundsWrite i (length xs)))"

text \<open>The bytes \<open>mem[p], ..., mem[p + n - 1]\<close>.\<close>

definition read_bytes :: "cpu_memory \<Rightarrow> size_t \<Rightarrow> nat \<Rightarrow> uint8 list" where
  "read_bytes mem p n = map (\<lambda>i. mem (p + of_nat i)) [0..<n]"

section \<open>ELF sections and the section layout planner\<close>

text \<open>
  What the planner and the uploader read of a \<open>Util::Elf::Section\<close>: its index, its
  name, the header fields \<open>sh_flags\<close> and \<open>sh_addralign\<close>, and its data with its size.
\<close>

record Section =
  GetIndex :: uint32
  GetName :: string
  sh_flags :: uint64
  sh_addralign :: uint64
  GetDataSize :: size_t
  GetData :: "uint8 list"

record SectionInfo =
  info_id :: uint32
  info_offset :: gpusize

text \<open>
  \<open>Util::SectionMemoryMap\<close> (palSectionMemoryMap.h) and
  \<open>Pal::PipelineSectionSegmentMapping\<close> (pipelineGpuMapping.h) have the same
  members and the same member functions; the second one also carries the flags of its
  segment. The functions below are written once, for both.
\<close>

record SectionMemoryMap =
  m_alignment :: uint64
  m_size :: gpusize
  m_sections :: "SectionInfo list"

record PipelineSectionSegmentMapping = SectionMemoryMap +
  m_flags :: uint64

definition SectionMemoryMap_ctor :: SectionMemoryMap where
  "SectionMemoryMap_ctor = \<lparr>m_alignment = 0, m_size = 0, m_sections = []\<rparr>"

definition PipelineSectionSegmentMapping_ctor :: "uint64 \<Rightarrow> PipelineSectionSegmentMapping" where
  "PipelineSectionSegmentMapping_ctor flags =
     \<lparr>m_alignment = 0, m_size = 0, m_sections = [], m_flags = flags\<rparr>"

definition AddSection ::
  "'a SectionMemoryMap_scheme \<Rightarrow> Section \<Rightarrow> 'a SectionMemoryMap_scheme" where
  "AddSection m section =
     (let alignment = sh_addralign section;
          offset = Pow2Align (m_size m) alignment
      in m\<lparr>m_size := offset + GetDataSize section,
            m_alignment := (if alignment > m_alignment m then alignment else m_alignment m),
            m_sections := m_sections m @ [\<lparr>info_id = GetIndex section, info_offset = offset\<rparr>]\<rparr>)"

definition GetNumSections :: "'a SectionMemoryMap_scheme \<Rightarrow> uint32" where
  "GetNumSections m = of_nat (length (m_sections m))"

definition GetSectionIndex :: "'a SectionMemoryMap_scheme \<Rightarrow> nat \<Rightarrow> uint32" where
  "GetSectionIndex m i = info_id (m_sections m ! i)"

definition GetAlignment :: "'a SectionMemoryMap_scheme \<Rightarrow> uint64" where
  "GetAlignment m = m_alignment m"

definition GetSize :: "'a SectionMemoryMap_scheme \<Rightarrow> gpusize" where
  "GetSize m = m_size m"

text \<open>\<open>GetSectionOffset\<close>: a linear scan; the first entry with the index wins.\<close>

fun find_section :: "SectionInfo list \<Rightarrow> uint32 \<Rightarrow> Result + gpusize" where
  "find_section [] sectionIndex = Inl ErrorUnavailable"
| "find_section (s # ss) sectionIndex =
     (if info_id s = sectionIndex then Inr (info_offset s) else find_section ss sectionIndex)"

definition GetSectionOffset :: "'a SectionMemoryMap_scheme \<Rightarrow> uint32 \<Rightarrow> Result + gpusize" where
  "GetSectionOffset m sectionIndex = find_section (m_sections m) sectionIndex"

text \<open>Adding the sections of a list in order, as a caller's loop does.\<close>

definition AddSections ::
  "'a SectionMemoryMap_scheme \<Rightarrow> Section list \<Rightarrow> 'a SectionMemoryMap_scheme" where
  "AddSections m secs = foldl AddSection m secs"

text \<open>
  The layout the spec describes, on unbounded naturals: the running size after the
  sections of a list, starting from a running size \<open>n\<close>.
\<close>

fun planned_size :: "nat \<Rightarrow> Section list \<Rightarrow> nat" where
  "planned_size n [] = n"
| "planned_size n (s # ss) =
     planned_size (round_up n (unat (sh_addralign s)) + unat (GetDataSize s)) ss"

definition freshly_constructed :: "'a SectionMemoryMap_scheme \<Rightarrow> bool" where
  "freshly_constructed m = (m_alignment m = 0 \<and> m_size m = 0 \<and> m_sections m = [])"

section \<open>The binary uploader\<close>

subsection \<open>Collaborators of the uploader\<close>

datatype GpuHeap = GpuHeapLocal | GpuHeapInvisible | GpuHeapGartUswc | GpuHeapGartCacheable

datatype VaRange = VaRange_Default | VaRange_DescriptorTable | VaRange_ShadowDescriptorTable | VaRange_Svm

datatype GpuMemPriority =
  Priority_Unused | Priority_VeryLow | Priority_Low | Priority_Normal | Priority_High | Priority_VeryHigh

record GpuMemoryCreateInfo =
  ci_size :: gpusize
  ci_alignment :: gpusize
  ci_vaRange :: VaRange
  ci_heaps :: "GpuHeap list"
  ci_priority :: GpuMemPriority

record GpuMemoryInternalCreateInfo =
  alwaysResident :: bool

text \<open>
  A GPU memory object of the memory manager: its GPU virtual address, and what
  \<open>Map\<close> and \<open>Unmap\<close> answer (a result, and the CPU address of the mapping).
\<close>

record GpuMemory =
  Desc_gpuVirtAddr :: gpusize
  Map_result :: Result
  Map_ppData :: size_t
  Unmap_result :: Result

text \<open>
  What the uploader uses of the device: the memory manager's \<open>AllocateGpuMem\<close>
  (a result, the memory object and the offset of the sub-allocation in it; object and
  offset mean something only when the result is \<open>Success\<close>), the chip's shader
  prefetch distance, and \<open>PatchPipelineInternalSrdTable\<close> of the hardware layer, which
  computes the bytes of the destination table from the bytes of the source table, its
  size and the GPU address of the data section.
\<close>

record Device =
  AllocateGpuMem ::
    "GpuMemoryCreateInfo \<Rightarrow> GpuMemoryInternalCreateInfo \<Rightarrow> bool \<Rightarrow> Result \<times> GpuMemory \<times> gpusize"
  shaderPrefetchBytes :: uint32
  PatchPipelineInternalSrdTable :: "uint8 list \<Rightarrow> size_t \<Rightarrow> gpusize \<Rightarrow> uint8 list"

datatype AbiSectionType = AbiSection_Undefined | AbiSection_Code | AbiSection_Data | AbiSection_Disassembly

record PipelineSymbolEntry =
  sym_sectionType :: AbiSectionType
  sym_value :: uint64
  sym_size :: uint64

text \<open>
  Pipeline symbols are named by a kind and a hardware stage; hardware stages are the
  indices \<open>0, ..., Count - 1\<close> of the per-stage arrays.
\<close>

datatype PipelineSymbolKind = ShaderMainEntry | ShaderIntrlTblPtr

type_synonym PipelineSymbolType = "PipelineSymbolKind \<times> nat"

definition GetSymbolForStage :: "PipelineSymbolKind \<Rightarrow> nat \<Rightarrow> PipelineSymbolType" where
  "GetSymbolForStage kind stage = (kind, stage)"

text \<open>
  What the modelled functions read of a loaded \<open>AbiProcessor\<close>: the sections of its
  ELF processor, the text and the data section, what \<open>GetData\<close> and
  \<open>GetPipelineCode\<close> hand out (a buffer and its length), and the pipeline symbols.
\<close>

record AbiProcessor =
  GetSections :: "Section list"
  GetTextSection :: Section
  GetDataSection :: Section
  GetData_pBuffer :: "uint8 list"
  GetData_length :: size_t
  GetData_alignment :: gpusize
  GetPipelineCode_pCode :: "uint8 list"
  GetPipelineCode_length :: size_t
  HasPipelineSymbolEntry :: "PipelineSymbolType \<Rightarrow> PipelineSymbolEntry option"

record HardwareStageMetadata =
  perfDataBufferSize :: uint32

text \<open>
  The fields of \<open>CodeObjectMetadata.pipeline\<close> that the modelled functions read;
  \<open>hasEntry_x\<close> is \<open>hasEntry.x != 0\<close>.
\<close>

record CodeObjectMetadata =
  hardwareStage :: "HardwareStageMetadata list"
  hasEntry_spillThreshold :: bool
  spillThreshold :: uint32
  hasEntry_userDataLimit :: bool
  userDataLimit :: uint32

record PerfDataInfo =
  regOffset :: uint32
  cpuOffset :: size_t
  gpuVirtAddr :: uint32
  sizeInBytes :: size_t

text \<open>
  Modelled from the spec: the ELF section flags (palElf.h) and
  \<open>Elf::Sections::GetSectionIndex\<close> (palElfProcessor.h) are not among the sources.
  The flags are the ELF standard's \<open>SHF_WRITE\<close> and \<open>SHF_EXECINSTR\<close>, for the spec's
  writable and executable sections. The spec says that the performance-counter section
  is located by name; the caller takes the index 0, the null section of ELF, for not
  found.
\<close>

definition ShfWrite :: uint32 where
  "ShfWrite = 1"

definition ShfExecInstr :: uint32 where
  "ShfExecInstr = 4"

definition Sections_GetSectionIndex :: "Section list \<Rightarrow> string \<Rightarrow> uint32" where
  "Sections_GetSectionIndex secs name =
     (case filter (\<lambda>s. GetName s = name) secs of [] \<Rightarrow> 0 | s # _ \<Rightarrow> GetIndex s)"

definition Sections_Get :: "Section list \<Rightarrow> uint32 \<Rightarrow> Section" where
  "Sections_Get secs i = secs ! unat i"

subsection \<open>PipelineUploader\<close>

text \<open>
  Pointers are \<open>None\<close> when null. The initialiser list of the constructor leaves
  \<open>m_prefetchGpuVirtAddr\<close> and \<open>m_prefetchSize\<close> out: until \<open>Begin\<close> assigns
  them they hold whatever the memory of the object held, which the constructor of the
  model takes as its last two arguments.
\<close>

record PipelineUploader =
  m_pGpuMemory :: "GpuMemory option"
  m_baseOffset :: gpusize
  m_gpuMemSize :: gpusize
  m_codeGpuVirtAddr :: gpusize
  m_dataGpuVirtAddr :: gpusize
  m_ctxRegGpuVirtAddr :: gpusize
  m_shRegGpuVirtAddr :: gpusize
  m_prefetchGpuVirtAddr :: gpusize
  m_prefetchSize :: gpusize
  m_shRegisterCount :: uint32
  m_ctxRegisterCount :: uint32
  m_dataOffset :: gpusize
  m_dataLength :: size_t
  m_textOffset :: gpusize
  m_textLength :: size_t
  m_pMappedPtr :: "size_t option"
  m_pCtxRegWritePtr :: "size_t option"
  m_pShRegWritePtr :: "size_t option"

definition PipelineUploader_ctor ::
  "uint32 \<Rightarrow> uint32 \<Rightarrow> gpusize \<Rightarrow> gpusize \<Rightarrow> PipelineUploader" where
  "PipelineUploader_ctor ctxRegisterCount shRegisterCount indeterminate1 indeterminate2 =
     \<lparr>m_pGpuMemory = None, m_baseOffset = 0, m_gpuMemSize = 0, m_codeGpuVirtAddr = 0,
      m_dataGpuVirtAddr = 0, m_ctxRegGpuVirtAddr = 0, m_shRegGpuVirtAddr = 0,
      m_prefetchGpuVirtAddr = indeterminate1, m_prefetchSize = indeterminate2,
      m_shRegisterCount = shRegisterCount, m_ctxRegisterCount = ctxRegisterCount,
      m_dataOffset = 0, m_dataLength = 0, m_textOffset = 0, m_textLength = 0,
      m_pMappedPtr = None, m_pCtxRegWritePtr = None, m_pShRegWritePtr = None\<rparr>"

text \<open>
  The loops of \<open>PipelineUploader::Begin\<close>, each a recursion over the indices it runs
  through. First loop (lines 625 to 631): the sections with the write or the execute
  flag go into the mapping, in the order of the ELF.
\<close>

fun Begin_AddSections ::
  "PipelineSectionSegmentMapping \<Rightarrow> Section list \<Rightarrow> PipelineSectionSegmentMapping" where
  "Begin_AddSections mapping [] = mapping"
| "Begin_AddSections mapping (section # rest) =
     (let flags = (ucast (sh_flags section) :: uint32)
      in if flags AND ShfWrite \<noteq> 0 \<or> flags AND ShfExecInstr \<noteq> 0
         then Begin_AddSections (AddSection mapping section) rest
         else Begin_AddSections mapping rest)"

text \<open>
  Second loop (lines 642 to 654), over the hardware stages: the state is
  \<open>createInfo.size\<close>, \<open>performanceDataOffset\<close> and the list of performance data
  infos.
\<close>

fun Begin_PerfDataLayout ::
  "CodeObjectMetadata \<Rightarrow> nat list \<Rightarrow> gpusize \<times> gpusize \<times> PerfDataInfo list
     \<Rightarrow> gpusize \<times> gpusize \<times> PerfDataInfo list" where
  "Begin_PerfDataLayout metadata [] st = st"
| "Begin_PerfDataLayout metadata (s # rest) (createInfo_size, performanceDataOffset, infos) =
     (let performanceDataBytes = perfDataBufferSize (hardwareStage metadata ! s)
      in if performanceDataBytes \<noteq> 0
         then Begin_PerfDataLayout metadata rest
                (createInfo_size + ucast performanceDataBytes,
                 performanceDataOffset + ucast performanceDataBytes,
                 infos[s := (infos ! s)\<lparr>sizeInBytes := ucast performanceDataBytes,
                                         cpuOffset := performanceDataOffset\<rparr>])
         else Begin_PerfDataLayout metadata rest (createInfo_size, performanceDataOffset, infos))"

text \<open>
  Third loop (lines 680 to 690): the sections of the mapping are copied to their
  offsets; a failing lookup returns from \<open>Begin\<close> with the memory as it is then.
\<close>

fun Begin_CopySections ::
  "Section list \<Rightarrow> PipelineSectionSegmentMapping \<Rightarrow> size_t \<Rightarrow> nat list \<Rightarrow> cpu_memory
     \<Rightarrow> Result \<times> cpu_memory" where
  "Begin_CopySections sections mapping pMapped [] mem = (Success, mem)"
| "Begin_CopySections sections mapping pMapped (i # rest) mem =
     (let sectionIndex = GetSectionIndex mapping i;
          section = Sections_Get sections sectionIndex
      in case GetSectionOffset mapping sectionIndex of
           Inl result \<Rightarrow> (result, mem)
         | Inr offset \<Rightarrow>
             Begin_CopySections sections mapping pMapped rest
               (memcpy mem (VoidPtrInc pMapped offset) (GetData section) (GetDataSize section)))"

text \<open>Fourth loop (lines 734 to 750): the internal SRD tables in the data section are patched.\<close>

fun Begin_PatchSrdTables ::
  "Device \<Rightarrow> AbiProcessor \<Rightarrow> size_t \<Rightarrow> gpusize \<Rightarrow> nat list \<Rightarrow> cpu_memory \<Rightarrow> cpu_memory" where
  "Begin_PatchSrdTables pDevice abiProcessor pMappedPtr dataGpuVirtAddr [] mem = mem"
| "Begin_PatchSrdTables pDevice abiProcessor pMappedPtr dataGpuVirtAddr (s # rest) mem =
     (case HasPipelineSymbolEntry abiProcessor (GetSymbolForStage ShaderIntrlTblPtr s) of
        Some symbol \<Rightarrow>
          if sym_sectionType symbol = AbiSection_Data
          then Begin_PatchSrdTables pDevice abiProcessor pMappedPtr dataGpuVirtAddr rest
                 (memcpy mem (VoidPtrInc pMappedPtr (sym_value symbol))
                    (PatchPipelineInternalSrdTable pDevice
                       (take (unat (sym_size symbol))
                          (drop (unat (sym_value symbol)) (GetData_pBuffer abiProcessor)))
                       (sym_size symbol) dataGpuVirtAddr)
                    (sym_size symbol))
          else Begin_PatchSrdTables pDevice abiProcessor pMappedPtr dataGpuVirtAddr rest mem
      | None \<Rightarrow> Begin_PatchSrdTables pDevice abiProcessor pMappedPtr dataGpuVirtAddr rest mem)"

text \<open>
  Fifth loop (lines 787 to 795): every stage with a performance buffer gets its GPU
  address, and the buffer is zeroed. \<open>gpuVirtAddr\<close> is the local variable of
  \<open>Begin\<close> as it is when the loop starts.
\<close>

fun Begin_InitPerfData ::
  "size_t \<Rightarrow> gpusize \<Rightarrow> nat list \<Rightarrow> PerfDataInfo list \<times> cpu_memory
     \<Rightarrow> PerfDataInfo list \<times> cpu_memory" where
  "Begin_InitPerfData pMapped gpuVirtAddr_local [] st = st"
| "Begin_InitPerfData pMapped gpuVirtAddr_local (s # rest) (infos, mem) =
     (if sizeInBytes (infos ! s) \<noteq> 0
      then let offset = cpuOffset (infos ! s)
           in Begin_InitPerfData pMapped gpuVirtAddr_local rest
                (infos[s := (infos ! s)\<lparr>gpuVirtAddr := LowPart (gpuVirtAddr_local + offset)\<rparr>],
                 memset mem (VoidPtrInc pMapped offset) 0 (sizeInBytes (infos ! s)))
      else Begin_InitPerfData pMapped gpuVirtAddr_local rest (infos, mem))"

text \<open>Lines 760 to 784: the register table behind the section payload.\<close>

definition Begin_RegisterTable :: "PipelineUploader \<Rightarrow> gpusize \<Rightarrow> size_t \<Rightarrow> PipelineUploader" where
  "Begin_RegisterTable up gpuVirtAddr_local pMappedPtr =
     (let totalRegisters = m_ctxRegisterCount up + m_shRegisterCount up
      in if totalRegisters > 0
         then let regGpuVirtAddr = Pow2Align gpuVirtAddr_local 4;
                  pRegWritePtr = VoidPtrAlign pMappedPtr 4;
                  up1 = (if m_ctxRegisterCount up > 0
                         then up\<lparr>m_ctxRegGpuVirtAddr := regGpuVirtAddr,
                                 m_pCtxRegWritePtr := Some pRegWritePtr\<rparr>
                         else up);
                  regGpuVirtAddr1 = (if m_ctxRegisterCount up > 0
                         then regGpuVirtAddr + ucast (m_ctxRegisterCount up) * 8
                         else regGpuVirtAddr);
                  pRegWritePtr1 = (if m_ctxRegisterCount up > 0
                         then VoidPtrInc pRegWritePtr (ucast (m_ctxRegisterCount up * 2) * 4)
                         else pRegWritePtr)
              in if m_shRegisterCount up > 0
                 then up1\<lparr>m_shRegGpuVirtAddr := regGpuVirtAddr1,
                          m_pShRegWritePtr := Some pRegWritePtr1\<rparr>
                 else up1
         else up)"

text \<open>
  The state \<open>Begin\<close> works on: the uploader itself, the caller's list of performance
  data infos, the caller's mapping, and the CPU memory.
\<close>

type_synonym upload_state =
  "PipelineUploader \<times> PerfDataInfo list \<times> PipelineSectionSegmentMapping \<times> cpu_memory"

text \<open>
  Lines 674 to 795 of \<open>Begin\<close>, run once the allocation is mapped. Every
  \<open>return result\<close> after a failed lookup is a branch that hands back the state as it
  is then.
\<close>

definition Begin_Mapped ::
  "Device \<Rightarrow> AbiProcessor \<Rightarrow> CodeObjectMetadata \<Rightarrow> gpusize \<Rightarrow> GpuMemory \<Rightarrow> upload_state
     \<Rightarrow> Result \<times> upload_state" where
  "Begin_Mapped pDevice abiProcessor metadata createInfo_size gpuMem st =
     (case st of (up0, infos, mapping, mem0) \<Rightarrow>
      (let sections = GetSections abiProcessor;
           pMapped = VoidPtrInc (Map_ppData gpuMem) (m_baseOffset up0);
           up1 = up0\<lparr>m_gpuMemSize := createInfo_size, m_pMappedPtr := Some pMapped\<rparr>;
           copied = Begin_CopySections sections mapping pMapped
                      [0..<unat (GetNumSections mapping)] mem0;
           mem1 = snd copied
       in if fst copied \<noteq> Success then (fst copied, up1, infos, mapping, mem1)
          else
          (let gpuVirtAddr_local = Desc_gpuVirtAddr gpuMem + m_baseOffset up1;
               perfSectionIndex = Sections_GetSectionIndex sections ''__llvm_prf_cnts'';
               perfSection =
                 (if perfSectionIndex \<noteq> 0
                  then (case GetSectionOffset mapping perfSectionIndex of
                          Inl result \<Rightarrow> Inl result
                        | Inr offset \<Rightarrow>
                            Inr (up1\<lparr>m_dataLength :=
                                        GetDataSize (Sections_Get sections perfSectionIndex),
                                      m_dataOffset := offset\<rparr>))
                  else Inr up1)
           in (case perfSection of
                 Inl result \<Rightarrow> (result, up1, infos, mapping, mem1)
               | Inr up2 \<Rightarrow>
                   (case GetSectionOffset mapping (GetIndex (GetTextSection abiProcessor)) of
                      Inl result \<Rightarrow> (result, up2, infos, mapping, mem1)
                    | Inr offset \<Rightarrow>
                        (let up3 = up2\<lparr>m_codeGpuVirtAddr := gpuVirtAddr_local + offset,
                                        m_prefetchGpuVirtAddr := gpuVirtAddr_local + offset,
                                        m_prefetchSize := GetDataSize (GetTextSection abiProcessor),
                                        m_textOffset := offset,
                                        m_textLength := GetDataSize (GetTextSection abiProcessor)\<rparr>;
                             dataSection =
                               (if GetData_length abiProcessor > 0
                                then (case GetSectionOffset mapping
                                             (GetIndex (GetDataSection abiProcessor)) of
                                        Inl result \<Rightarrow> Inl result
                                      | Inr offset \<Rightarrow>
                                          Inr (up3\<lparr>m_dataGpuVirtAddr := gpuVirtAddr_local + offset\<rparr>,
                                               Begin_PatchSrdTables pDevice abiProcessor
                                                 (VoidPtrInc pMapped offset)
                                                 (gpuVirtAddr_local + offset)
                                                 [0..<length (hardwareStage metadata)] mem1))
                                else Inr (up3, mem1))
                         in (case dataSection of
                               Inl result \<Rightarrow> (result, up3, infos, mapping, mem1)
                             | Inr (up4, mem2) \<Rightarrow>
                                 (let pMappedPtr = VoidPtrInc pMapped (GetSize mapping);
                                      gpuVirtAddr_local2 = gpuVirtAddr_local + GetSize mapping;
                                      up5 = Begin_RegisterTable up4 gpuVirtAddr_local2 pMappedPtr;
                                      initialised = Begin_InitPerfData pMapped gpuVirtAddr_local2
                                        [0..<length (hardwareStage metadata)] (infos, mem2)
                                  in (Success, up5, fst initialised, mapping,
                                      snd initialised)))))))))"

text \<open>
  \<open>PipelineUploader::Begin\<close>. \<open>ShaderICacheLineSize\<close> is a constant of the
  hardware layer that is not among the sources; it is a parameter here.
\<close>

definition Begin ::
  "gpusize \<Rightarrow> Device \<Rightarrow> AbiProcessor \<Rightarrow> CodeObjectMetadata \<Rightarrow> bool \<Rightarrow> upload_state
     \<Rightarrow> Result \<times> upload_state" where
  "Begin ShaderICacheLineSize pDevice abiProcessor metadata preferNonLocalHeap st =
     (case st of (up, pPerfDataInfoList, mapping0, mem) \<Rightarrow>
      (let GpuMemByteAlign = 256;
           heaps = (if preferNonLocalHeap then [GpuHeapGartUswc]
                    else [GpuHeapLocal, GpuHeapGartUswc]);
           internalInfo = \<lparr>alwaysResident = True\<rparr>;
           mapping = Begin_AddSections mapping0 (GetSections abiProcessor);
           size0 = GetSize mapping;
           totalRegisters = m_ctxRegisterCount up + m_shRegisterCount up;
           RegisterEntryBytes = (8 :: uint32);
           size1 = (if totalRegisters > 0
                    then Pow2Align size0 4 + ucast (RegisterEntryBytes * totalRegisters)
                    else size0);
           layout = Begin_PerfDataLayout metadata [0..<length (hardwareStage metadata)]
                      (size1, size1, pPerfDataInfoList);
           size2 = fst layout;
           infos = snd (snd layout);
           codeLength = GetDataSize (GetTextSection abiProcessor);
           minSafeSize = Pow2Align codeLength ShaderICacheLineSize
                           + ucast (shaderPrefetchBytes pDevice);
           createInfo = \<lparr>ci_size = max size2 minSafeSize, ci_alignment = GpuMemByteAlign,
                           ci_vaRange = VaRange_DescriptorTable, ci_heaps = heaps,
                           ci_priority = Priority_High\<rparr>;
           allocated = AllocateGpuMem pDevice createInfo internalInfo False;
           result = fst allocated;
           gpuMem = fst (snd allocated);
           up1 = up\<lparr>m_pGpuMemory := Some gpuMem, m_baseOffset := snd (snd allocated)\<rparr>
       in if result \<noteq> Success then (result, up1, infos, mapping, mem)
          else if Map_result gpuMem \<noteq> Success
          then (Map_result gpuMem, up1, infos, mapping, mem)
          else Begin_Mapped pDevice abiProcessor metadata (ci_size createInfo) gpuMem
                 (up1, infos, mapping, mem)))"

text \<open>
  The allocation size in the words of the spec, on unbounded naturals: the layout size,
  rounded up to 4 bytes and increased by 8 bytes per register pair when there are
  registers, plus the performance buffer sizes of all stages, clamped up to the code
  length rounded up to the cache line plus the prefetch distance.
\<close>

definition spec_minSafeSize :: "nat \<Rightarrow> nat \<Rightarrow> nat \<Rightarrow> nat" where
  "spec_minSafeSize codeLen cacheLineSize prefetchDistance =
     round_up codeLen cacheLineSize + prefetchDistance"

definition spec_unclamped_size :: "nat \<Rightarrow> nat \<Rightarrow> nat \<Rightarrow> nat list \<Rightarrow> nat" where
  "spec_unclamped_size layoutSize contextRegCount shRegCount perfSizes =
     (if contextRegCount + shRegCount > 0
      then round_up layoutSize 4 + 8 * (contextRegCount + shRegCount)
      else layoutSize)
     + sum_list perfSizes"

definition spec_allocation_size ::
  "nat \<Rightarrow> nat \<Rightarrow> nat \<Rightarrow> nat list \<Rightarrow> nat \<Rightarrow> nat \<Rightarrow> nat \<Rightarrow> nat" where
  "spec_allocation_size layoutSize contextRegCount shRegCount perfSizes
       codeLen cacheLineSize prefetchDistance =
     max (spec_unclamped_size layoutSize contextRegCount shRegCount perfSizes)
         (spec_minSafeSize codeLen cacheLineSize prefetchDistance)"

text \<open>
  The request that \<open>Begin\<close> hands to \<open>AllocateGpuMem\<close>, for a size in bytes: alignment,
  address range, heaps and priority as lines 598 to 614 set them.
\<close>

definition allocation_request :: "bool \<Rightarrow> gpusize \<Rightarrow> GpuMemoryCreateInfo" where
  "allocation_request preferNonLocalHeap bytes =
     \<lparr>ci_size = bytes, ci_alignment = 256, ci_vaRange = VaRange_DescriptorTable,
      ci_heaps = (if preferNonLocalHeap then [GpuHeapGartUswc]
                  else [GpuHeapLocal, GpuHeapGartUswc]),
      ci_priority = Priority_High\<rparr>"

text \<open>The sections \<open>Begin\<close> uploads: those with the write or the execute flag.\<close>

definition uploaded :: "Section \<Rightarrow> bool" where
  "uploaded section =
     ((ucast (sh_flags section) :: uint32) AND ShfWrite \<noteq> 0 \<or>
      (ucast (sh_flags section) :: uint32) AND ShfExecInstr \<noteq> 0)"

section \<open>The pipeline record and its queries\<close>

datatype ShaderType = Compute | Vertex | Hull | Domain | Geometry | Pixel

record ShaderStageInfo =
  stageId :: nat
  codeLength :: size_t
  disassemblyLength :: size_t

text \<open>
  The memory a pipeline is bound to: the memory object and the offset in it, and what
  \<open>Map\<close> (a result and the CPU address of the bound range) and \<open>Unmap\<close> answer.
\<close>

record BoundGpuMemory =
  bound_Memory :: "GpuMemory option"
  bound_Offset :: gpusize
  bound_Map :: "Result \<times> size_t"
  bound_Unmap :: Result


text \<open>
  The members of \<open>Pal::Pipeline\<close> that the queries read. The members
  \<open>m_gpuMemSize\<close>, \<open>m_dataLength\<close> and \<open>m_dataOffset\<close> carry the prefix \<open>p\<close>
  here, since the uploader has members of the same names. \<open>GetShaderStageInfo\<close> is
  the virtual function of the subclasses: the stage info of a shader type, or null.
\<close>

record Pipeline =
  m_gpuMem :: BoundGpuMemory
  p_gpuMemSize :: gpusize
  p_dataLength :: size_t
  p_dataOffset :: gpusize
  m_pPipelineBinary :: "uint8 list option"
  m_pipelineBinaryLen :: size_t
  m_perfDataInfo :: "PerfDataInfo list"
  GetShaderStageInfo :: "ShaderType \<Rightarrow> ShaderStageInfo option"

text \<open>
  A caller's buffer is the list of its bytes, and so is the retained binary and the code
  section. \<open>memcpy\<close> of \<open>n\<close> bytes into a buffer replaces its first \<open>n\<close> bytes; it
  is a fault when the source or the buffer has fewer.
\<close>

definition copy_to_buffer :: "uint8 list \<Rightarrow> uint8 list \<Rightarrow> nat \<Rightarrow> Fault + uint8 list" where
  "copy_to_buffer buffer src n =
     (if length src < n then Inl (OutOfBoundsRead n (length src))
      else if length buffer < n then Inl (OutOfBoundsWrite n (length buffer))
      else Inr (take n src @ drop n buffer))"



text \<open>
  Modelled from the spec: \<open>AbiProcessor::GetPipelineSymbolEntry\<close> is not among the
  sources. It locates the entry symbol of a stage; for a symbol the ELF does not have
  it is taken to hand out an empty entry.
\<close>

definition GetPipelineSymbolEntry :: "AbiProcessor \<Rightarrow> PipelineSymbolType \<Rightarrow> PipelineSymbolEntry" where
  "GetPipelineSymbolEntry abiProcessor symbolType =
     (case HasPipelineSymbolEntry abiProcessor symbolType of
        Some symbol \<Rightarrow> symbol
      | None \<Rightarrow> \<lparr>sym_sectionType = AbiSection_Undefined, sym_value = 0, sym_size = 0\<rparr>)"

text \<open>
  \<open>GetShaderCode\<close>. The ELF parser is a collaborator: \<open>LoadFromBuffer\<close> hands back a
  result and the loaded processor for the retained binary and its length.
\<close>

definition GetShaderCode ::
  "(uint8 list option \<Rightarrow> size_t \<Rightarrow> Result \<times> AbiProcessor) \<Rightarrow> Pipeline \<Rightarrow> ShaderType
     \<Rightarrow> size_t option \<Rightarrow> uint8 list option
     \<Rightarrow> Fault + (Result \<times> size_t option \<times> uint8 list option \<times> Pipeline)" where
  "GetShaderCode LoadFromBuffer p shaderType pSize pBuffer =
     (case pSize of
        None \<Rightarrow> Inr (ErrorInvalidPointer, pSize, pBuffer, p)
      | Some n \<Rightarrow>
          (case GetShaderStageInfo p shaderType of
             None \<Rightarrow> Inr (ErrorUnavailable, pSize, pBuffer, p)
           | Some pInfo \<Rightarrow>
               (case pBuffer of
                  None \<Rightarrow> Inr (Success, Some (codeLength pInfo), pBuffer, p)
                | Some buffer \<Rightarrow>
                    if n \<ge> codeLength pInfo
                    then (case LoadFromBuffer (m_pPipelineBinary p) (m_pipelineBinaryLen p) of
                            (result, abiProcessor) \<Rightarrow>
                              if result = Success
                              then let symbol = GetPipelineSymbolEntry abiProcessor
                                                  (GetSymbolForStage ShaderMainEntry (stageId pInfo));
                                       pCodeSection = GetPipelineCode_pCode abiProcessor
                                   in (case copy_to_buffer buffer
                                               (drop (unat (sym_value symbol)) pCodeSection)
                                               (unat (sym_size symbol)) of
                                         Inl fault \<Rightarrow> Inl fault
                                       | Inr filled \<Rightarrow> Inr (result, pSize, Some filled, p))
                              else Inr (result, pSize, pBuffer, p))
                    else Inr (ErrorInvalidMemorySize, pSize, pBuffer, p))))"


section \<open>The register signature extractor\<close>

text \<open>
  The register addresses and the values of \<open>Abi::UserDataMapping\<close> belong to the
  hardware and ABI headers, which are not among the sources: they are parameters,
  collected in a record. The sentinels are those that \<open>SetupSignatureFromElf\<close> tests
  before its last assignment; the values it tests after that, the graphics-only ones
  and the final \<open>else\<close>, only raise alerts in a debug build.
\<close>

record UserDataConsts =
  MaxUserDataEntries :: uint32
  mmCOMPUTE_USER_DATA_0 :: uint16
  mmCOMPUTE_USER_DATA_15 :: uint16
  FastUserDataStartReg :: uint16
  NoUserDataSpilling :: uint16
  UserDataMapping_GlobalTable :: uint32
  UserDataMapping_PerShaderTable :: uint32
  UserDataMapping_SpillTable :: uint32
  UserDataMapping_Workgroup :: uint32
  UserDataMapping_GdsRange :: uint32
  UserDataMapping_PerShaderPerfData :: uint32

text \<open>\<open>UserDataNotMapped\<close> is 0, as the \<open>static_assert\<close> of the source says.\<close>

definition UserDataNotMapped :: uint16 where
  "UserDataNotMapped = 0"

text \<open>
  Modelled from the spec: the declaration of the signature structures
  (gfx9 pipeline headers) is not among the sources. By the spec a stage maps up to 16
  user-data slots: \<open>mappedEntry\<close> is an array of 16 entries.
\<close>

definition NumMappedEntries :: nat where
  "NumMappedEntries = 16"

record UserDataEntryMap =
  mappedEntry :: "uint8 list"
  userSgprCount :: uint8
  firstUserSgprRegAddr :: uint16
  spillTableRegAddr :: uint16

record ComputePipelineSignature =
  stage :: UserDataEntryMap
  numWorkGroupsRegAddr :: uint16
  sig_spillThreshold :: uint16
  sig_userDataLimit :: uint16
  perfDataAddr :: uint16

definition NullCsSignature :: "UserDataConsts \<Rightarrow> ComputePipelineSignature" where
  "NullCsSignature c =
     \<lparr>stage = \<lparr>mappedEntry = replicate NumMappedEntries 0, userSgprCount = 0,
                firstUserSgprRegAddr = 0, spillTableRegAddr = 0\<rparr>,
      numWorkGroupsRegAddr = UserDataNotMapped,
      sig_spillThreshold = NoUserDataSpilling c,
      sig_userDataLimit = 0,
      perfDataAddr = UserDataNotMapped\<rparr>"

text \<open>
  The register-value list of the metadata: \<open>HasEntry\<close> of a register offset is its
  value, if the list has one.
\<close>

type_synonym RegisterVector = "uint32 \<Rightarrow> uint32 option"

text \<open>
  What \<open>SetupSignatureFromElf\<close> works on: its local array \<open>entryToRegAddr\<close>, the
  signature \<open>m_signature\<close>, and the performance data info of the compute stage,
  \<open>m_perfDataInfo[HardwareStage::Cs]\<close>.
\<close>

record SetupState =
  entryToRegAddr :: "uint16 list"
  m_signature :: ComputePipelineSignature
  m_perfDataInfo_Cs :: PerfDataInfo

text \<open>
  The body of the loop (lines 88 to 141) for one register offset. The assertions are
  those of a debug build and are left out. \<open>userSgprId\<close> is the difference of the two
  16-bit values, cut to 8 bits.
\<close>

definition SetupSignature_step ::
  "UserDataConsts \<Rightarrow> RegisterVector \<Rightarrow> uint16 \<Rightarrow> SetupState \<Rightarrow> Fault + SetupState" where
  "SetupSignature_step c registers offset st =
     (case registers (ucast offset) of
        None \<Rightarrow> Inr st
      | Some v \<Rightarrow>
          let sig = m_signature st in
          if v < MaxUserDataEntries c
          then let userSgprId = (ucast (offset - firstUserSgprRegAddr (stage sig)) :: uint8)
               in case array_write (entryToRegAddr st) (unat v) offset of
                    Inl fault \<Rightarrow> Inl fault
                  | Inr entries \<Rightarrow>
                      (case array_write (mappedEntry (stage sig)) (unat userSgprId) (ucast v) of
                         Inl fault \<Rightarrow> Inl fault
                       | Inr mapped \<Rightarrow>
                           Inr (st\<lparr>entryToRegAddr := entries,
                                   m_signature := sig\<lparr>stage := (stage sig)
                                     \<lparr>mappedEntry := mapped,
                                      userSgprCount :=
                                        max (userSgprId + 1) (userSgprCount (stage sig))\<rparr>\<rparr>\<rparr>))
          else if v = UserDataMapping_GlobalTable c then Inr st
          else if v = UserDataMapping_PerShaderTable c then Inr st
          else if v = UserDataMapping_SpillTable c
          then Inr (st\<lparr>m_signature := sig\<lparr>stage := (stage sig)\<lparr>spillTableRegAddr := offset\<rparr>\<rparr>\<rparr>)
          else if v = UserDataMapping_Workgroup c
          then Inr (st\<lparr>m_signature := sig\<lparr>numWorkGroupsRegAddr := offset\<rparr>\<rparr>)
          else if v = UserDataMapping_GdsRange c then Inr st
          else if v = UserDataMapping_PerShaderPerfData c
          then Inr (st\<lparr>m_signature := sig\<lparr>perfDataAddr := offset\<rparr>,
                       m_perfDataInfo_Cs := (m_perfDataInfo_Cs st)\<lparr>regOffset := ucast offset\<rparr>\<rparr>)
          else Inr st)"

text \<open>
  The loop (line 86) counts a 16-bit \<open>offset\<close> up from its start to
  \<open>mmCOMPUTE_USER_DATA_15\<close>. For a last register \<open>0xFFFF\<close> the counter would wrap
  and the loop would not end: the result is an option, \<open>None\<close> for a loop that does not
  return.
\<close>

partial_function (option) SetupSignature_loop ::
  "UserDataConsts \<Rightarrow> RegisterVector \<Rightarrow> uint16 \<Rightarrow> SetupState \<Rightarrow> (Fault + SetupState) option" where
  "SetupSignature_loop c registers offset st =
     (if offset \<le> mmCOMPUTE_USER_DATA_15 c
      then (case SetupSignature_step c registers offset st of
              Inl fault \<Rightarrow> Some (Inl fault)
            | Inr st' \<Rightarrow> SetupSignature_loop c registers (offset + 1) st')
      else Some (Inr st))"

text \<open>
  \<open>ComputePipeline::SetupSignatureFromElf\<close>, on the signature and the performance
  data info of the compute stage that the pipeline has when it is called. The result
  keeps the local array \<open>entryToRegAddr\<close> as it is when the function returns.
\<close>

definition SetupSignatureFromElf ::
  "UserDataConsts \<Rightarrow> CodeObjectMetadata \<Rightarrow> RegisterVector
     \<Rightarrow> ComputePipelineSignature \<Rightarrow> PerfDataInfo \<Rightarrow> (Fault + SetupState) option" where
  "SetupSignatureFromElf c metadata registers signature perfDataInfo_Cs =
     (let st0 = \<lparr>entryToRegAddr = replicate (unat (MaxUserDataEntries c)) 0,
                  m_signature = signature\<lparr>stage := (stage signature)
                    \<lparr>firstUserSgprRegAddr := mmCOMPUTE_USER_DATA_0 c + FastUserDataStartReg c\<rparr>\<rparr>,
                  m_perfDataInfo_Cs = perfDataInfo_Cs\<rparr>
      in (case SetupSignature_loop c registers (mmCOMPUTE_USER_DATA_0 c) st0 of
            None \<Rightarrow> None
          | Some (Inl fault) \<Rightarrow> Some (Inl fault)
          | Some (Inr st1) \<Rightarrow>
              (let sig1 = m_signature st1;
                   sig2 = (if hasEntry_spillThreshold metadata
                           then sig1\<lparr>sig_spillThreshold := ucast (spillThreshold metadata)\<rparr>
                           else sig1);
                   sig3 = (if hasEntry_userDataLimit metadata
                           then sig2\<lparr>sig_userDataLimit := ucast (userDataLimit metadata)\<rparr>
                           else sig2)
               in Some (Inr (st1\<lparr>m_signature := sig3\<rparr>)))))"

text \<open>
  The loop body applied to a list of register offsets in order, stopping at the first
  fault: what the loop does, once it is known which offsets it runs through.
\<close>

fun SetupSignature_steps ::
  "UserDataConsts \<Rightarrow> RegisterVector \<Rightarrow> uint16 list \<Rightarrow> SetupState \<Rightarrow> Fault + SetupState" where
  "SetupSignature_steps c registers [] st = Inr st"
| "SetupSignature_steps c registers (offset # rest) st =
     (case SetupSignature_step c registers offset st of
        Inl fault \<Rightarrow> Inl fault
      | Inr st' \<Rightarrow> SetupSignature_steps c registers rest st')"

text \<open>
  The constants as the hardware has them: the sixteen user-data registers of the
  compute stage are contiguous and below the end of the 16-bit range, and so is the
  first register that carries user data.
\<close>

definition user_data_regs_contiguous :: "UserDataConsts \<Rightarrow> bool" where
  "user_data_regs_contiguous c =
     (mmCOMPUTE_USER_DATA_15 c = mmCOMPUTE_USER_DATA_0 c + 15 \<and>
      unat (mmCOMPUTE_USER_DATA_0 c) + 15 < 65535 \<and>
      unat (FastUserDataStartReg c) \<le> 15)"

text \<open>
  The address of the first register that carries user data, as line 85 computes it, and
  the index \<open>userSgprId\<close> that the loop body computes for a register offset.
\<close>

definition first_user_sgpr :: "UserDataConsts \<Rightarrow> uint16" where
  "first_user_sgpr c = mmCOMPUTE_USER_DATA_0 c + FastUserDataStartReg c"

definition slot_of :: "UserDataConsts \<Rightarrow> uint16 \<Rightarrow> nat" where
  "slot_of c offset = unat (ucast (offset - first_user_sgpr c) :: uint8)"

text \<open>A register of the list holds a user-data ordinal: a value below the maximum.\<close>

definition maps_ordinal :: "UserDataConsts \<Rightarrow> RegisterVector \<Rightarrow> uint16 \<Rightarrow> bool" where
  "maps_ordinal c registers offset =
     (case registers (ucast offset) of None \<Rightarrow> False | Some v \<Rightarrow> v < MaxUserDataEntries c)"

text \<open>The register offsets of the user-data registers, in the order of the loop.\<close>

definition user_data_regs :: "UserDataConsts \<Rightarrow> uint16 list" where
  "user_data_regs c = map (\<lambda>i. mmCOMPUTE_USER_DATA_0 c + of_nat i) [0..<16]"

text \<open>
  Notions for the properties of the extractor. A register of the list holds one of the
  three sentinels that the loop stores an address for. The state in which the loop
  starts on a freshly constructed pipeline, whose signature is \<open>NullCsSignature\<close>,
  and what lines 162 to 170 do to the state behind the loop. The invariant of the
  loop: the sizes of the two arrays and the address of the first user-data register.
\<close>

definition wf_state :: "UserDataConsts \<Rightarrow> SetupState \<Rightarrow> bool" where
  "wf_state c st =
     (length (mappedEntry (stage (m_signature st))) = NumMappedEntries \<and>
      length (entryToRegAddr st) = unat (MaxUserDataEntries c) \<and>
      firstUserSgprRegAddr (stage (m_signature st)) = first_user_sgpr c)"

definition maps_sentinel :: "UserDataConsts \<Rightarrow> RegisterVector \<Rightarrow> uint16 \<Rightarrow> bool" where
  "maps_sentinel c registers offset =
     (case registers (ucast offset) of
        None \<Rightarrow> False
      | Some v \<Rightarrow> v = UserDataMapping_SpillTable c \<or> v = UserDataMapping_Workgroup c \<or>
                  v = UserDataMapping_PerShaderPerfData c)"

definition signature_start :: "UserDataConsts \<Rightarrow> PerfDataInfo \<Rightarrow> SetupState" where
  "signature_start c perfDataInfo_Cs =
     \<lparr>entryToRegAddr = replicate (unat (MaxUserDataEntries c)) 0,
      m_signature = (NullCsSignature c)\<lparr>stage := (stage (NullCsSignature c))
          \<lparr>firstUserSgprRegAddr := first_user_sgpr c\<rparr>\<rparr>,
      m_perfDataInfo_Cs = perfDataInfo_Cs\<rparr>"

definition signature_finish :: "CodeObjectMetadata \<Rightarrow> SetupState \<Rightarrow> SetupState" where
  "signature_finish metadata st =
     st\<lparr>m_signature :=
          (let sig1 = m_signature st;
               sig2 = (if hasEntry_spillThreshold metadata
                       then sig1\<lparr>sig_spillThreshold := ucast (spillThreshold metadata)\<rparr>
                       else sig1)
           in if hasEntry_userDataLimit metadata
              then sig2\<lparr>sig_userDataLimit := ucast (userDataLimit metadata)\<rparr>
              else sig2)\<rparr>"

section \<open>The command packet compiler\<close>

subsection \<open>Registers and packet images\<close>

text \<open>
  Modelled from the spec: the register unions \<open>regCOMPUTE_RESOURCE_LIMITS\<close> and
  \<open>regCOMPUTE_PGM_RSRC2\<close> (the GFX9 hardware headers) are not among the sources.
  They are records of the fields that the modelled code reads or writes, with the
  widths of the GFX9 register specification, and of the bits that are left: the spec's
  wave limit, maximum of thread groups per compute unit, locking threshold, the two
  distribution bits, the size of the local data share and the trap-handler bit. The
  function that gives the record for a 32-bit register value is a parameter where it
  is used.
\<close>

record regCOMPUTE_RESOURCE_LIMITS =
  WAVES_PER_SH :: "10 word"
  TG_PER_CU :: "4 word"
  LOCK_THRESHOLD :: "6 word"
  SIMD_DEST_CNTL :: "1 word"
  FORCE_SIMD_DIST :: "1 word"
  limits_other_bits :: uint32

record regCOMPUTE_PGM_RSRC2 =
  LDS_SIZE :: "9 word"
  TRAP_PRESENT :: "1 word"
  rsrc2_other_bits :: uint32

text \<open>
  Modelled from the spec: the declaration of the packet images (gfx9ComputePipeline.h)
  is not among the sources. The images \<open>m_commands.set\<close>, \<open>m_commands.loadIndex\<close>,
  \<open>m_commands.dynamic\<close> and \<open>m_commands.prefetch\<close> have the members that
  \<open>BuildPm4Headers\<close>, \<open>HwlInit\<close> and \<open>WriteCommands\<close> name: the spec's
  pre-baked static images of the two encodings, the dynamic template and the
  prefetch packet. A packet header is the list of its words, as the command utility
  built it.
\<close>

record Pm4ImageSet =
  hdrComputeNumThread :: "uint32 list"
  computeNumThreadX :: uint32
  computeNumThreadY :: uint32
  computeNumThreadZ :: uint32
  hdrComputePgm :: "uint32 list"
  computePgmLo :: uint32
  computePgmHi :: uint32
  hdrComputePgmRsrc1 :: "uint32 list"
  computePgmRsrc1 :: uint32
  hdrComputeUserData :: "uint32 list"
  computeUserDataLo :: uint32
  hdrComputeShaderChksum :: "uint32 list"
  computeShaderChksum :: uint32
  set_spaceNeeded :: size_t

record Pm4ImageLoadIndex =
  loadShRegIndex_header :: uint32
  loadShRegIndex_body :: "uint32 list"

record Pm4ImageDynamic =
  hdrComputePgmRsrc2 :: "uint32 list"
  computePgmRsrc2 :: regCOMPUTE_PGM_RSRC2
  hdrComputeResourceLimits :: "uint32 list"
  computeResourceLimits :: regCOMPUTE_RESOURCE_LIMITS

record PipelinePrefetchPm4 =
  prefetch_words :: "uint32 list"
  prefetch_spaceNeeded :: size_t

record Pm4Commands =
  cmd_set :: Pm4ImageSet
  cmd_loadIndex :: Pm4ImageLoadIndex
  cmd_dynamic :: Pm4ImageDynamic
  cmd_prefetch :: PipelinePrefetchPm4

text \<open>The sizes of the two images in words, \<open>sizeof(image) / sizeof(uint32)\<close>.\<close>

definition sizeof_loadIndex :: "Pm4ImageLoadIndex \<Rightarrow> size_t" where
  "sizeof_loadIndex img = of_nat (1 + length (loadShRegIndex_body img))"

definition sizeof_dynamic :: "Pm4ImageDynamic \<Rightarrow> size_t" where
  "sizeof_dynamic img =
     of_nat (length (hdrComputePgmRsrc2 img) + 1 + length (hdrComputeResourceLimits img) + 1)"

text \<open>
  Modelled from the spec: the chip properties, the dispatch descriptor and the engine
  types (palDevice.h, palPipeline.h) are not among the sources. The records have the
  members that the modelled code reads. Of the engine types the code names the compute
  engine, the spec's compute-only queue, and compares with it alone.
\<close>

record Gfx9ChipProperties =
  numShaderArrays :: uint32
  numCuPerSh :: uint32
  numSimdPerCu :: uint32
  numWavesPerSimd :: uint32

text \<open>The members of \<open>Gfx9::ComputePipeline\<close> that \<open>WriteCommands\<close> reads.\<close>

record ComputePipeline =
  m_commands :: Pm4Commands
  m_perfDataInfo_HwCs :: PerfDataInfo
  chipProps_gfx9 :: Gfx9ChipProperties

record DynamicComputeShaderInfo =
  maxWavesPerCu :: uint32
  maxThreadGroupsPerCu :: uint32
  ldsBytesPerTg :: uint32

datatype EngineType =
  EngineTypeUniversal | EngineTypeCompute | EngineTypeDma

subsection \<open>WriteCommands\<close>

definition CalcMaxWavesPerSh :: "ComputePipeline \<Rightarrow> uint32 \<Rightarrow> uint32" where
  "CalcMaxWavesPerSh p maxWavesPerCu_arg =
     (if maxWavesPerCu_arg > 0
      then let gfx9ChipProps = chipProps_gfx9 p;
               numWavefrontsPerCu = numSimdPerCu gfx9ChipProps * numWavesPerSimd gfx9ChipProps;
               maxWavesPerShCompute = numWavefrontsPerCu * numCuPerSh gfx9ChipProps;
               maxWavesPerSh = maxWavesPerCu_arg * numCuPerSh gfx9ChipProps
           in min maxWavesPerShCompute maxWavesPerSh
      else 0)"

text \<open>
  Modelled from the spec: the constants \<open>Gfx9LdsDwGranularity\<close> and
  \<open>Gfx9LdsDwGranularityShift\<close> are not among the sources. The size of the local data
  share is rounded to the granularity of the hardware: 128 double words, as the comment
  in \<open>WriteCommands\<close> says; the shift is its logarithm.
\<close>

definition Gfx9LdsDwGranularity :: uint64 where
  "Gfx9LdsDwGranularity = 128"

definition Gfx9LdsDwGranularityShift :: nat where
  "Gfx9LdsDwGranularityShift = 7"

text \<open>
  \<open>WriteCommands\<close> acts on the command stream, a collaborator: it calls
  \<open>WritePm4Image\<close> and \<open>WriteSetOneShReg<ShaderCompute>\<close> of the stream, and copies
  the prefetch image itself. Its calls, in their order, with their arguments other than
  the write cursor:
\<close>

datatype Pm4Image =
    ImageSet Pm4ImageSet
  | ImageLoadIndex Pm4ImageLoadIndex
  | ImageDynamic Pm4ImageDynamic

datatype CmdStreamCall =
    WritePm4Image size_t Pm4Image
  | WriteSetOneShReg_ShaderCompute uint32 uint32
  | CopyPrefetch "uint32 list"

text \<open>
  Lines 404 to 420: the private copy \<open>dynamicCmds\<close> of the dynamic image, patched
  with the bind-time state.
\<close>

definition WriteCommands_dynamicCmds ::
  "ComputePipeline \<Rightarrow> DynamicComputeShaderInfo \<Rightarrow> Pm4ImageDynamic" where
  "WriteCommands_dynamicCmds p csInfo =
     (let dynamicCmds = cmd_dynamic (m_commands p);
          Gfx9MaxTgPerCu = (15 :: uint32);
          dynamicCmds1 = dynamicCmds\<lparr>computeResourceLimits := (computeResourceLimits dynamicCmds)
             \<lparr>TG_PER_CU := ucast (min (maxThreadGroupsPerCu csInfo) Gfx9MaxTgPerCu)\<rparr>\<rparr>;
          dynamicCmds2 =
            (if maxWavesPerCu csInfo > 0
             then dynamicCmds1\<lparr>computeResourceLimits := (computeResourceLimits dynamicCmds1)
                    \<lparr>WAVES_PER_SH := ucast (CalcMaxWavesPerSh p (maxWavesPerCu csInfo))\<rparr>\<rparr>
             else dynamicCmds1)
      in if ldsBytesPerTg csInfo > 0
         then dynamicCmds2\<lparr>computePgmRsrc2 := (computePgmRsrc2 dynamicCmds2)
                \<lparr>LDS_SIZE := ucast (drop_bit Gfx9LdsDwGranularityShift
                     (Pow2Align (ucast (ldsBytesPerTg csInfo) div 4) Gfx9LdsDwGranularity))\<rparr>\<rparr>
         else dynamicCmds2)"

text \<open>
  The calls of \<open>WriteCommands\<close>, for a stream that answers \<open>optimizerEnabled\<close> to
  \<open>Pm4OptimizerEnabled()\<close> and \<open>engineType\<close> to \<open>GetEngineType()\<close>.
\<close>

definition WriteCommands_calls ::
  "ComputePipeline \<Rightarrow> bool \<Rightarrow> EngineType \<Rightarrow> DynamicComputeShaderInfo \<Rightarrow> bool
     \<Rightarrow> CmdStreamCall list" where
  "WriteCommands_calls p optimizerEnabled engineType csInfo prefetch =
     (let useSetPath = (loadShRegIndex_header (cmd_loadIndex (m_commands p)) = 0 \<or>
                        optimizerEnabled \<or>
                        engineType = EngineTypeCompute);
          dynamicCmds = WriteCommands_dynamicCmds p csInfo;
          perfData = m_perfDataInfo_HwCs p
      in [if useSetPath
          then WritePm4Image (set_spaceNeeded (cmd_set (m_commands p)))
                 (ImageSet (cmd_set (m_commands p)))
          else WritePm4Image (sizeof_loadIndex (cmd_loadIndex (m_commands p)))
                 (ImageLoadIndex (cmd_loadIndex (m_commands p))),
          WritePm4Image (sizeof_dynamic dynamicCmds) (ImageDynamic dynamicCmds)]
         @ (if regOffset perfData \<noteq> ucast UserDataNotMapped
            then [WriteSetOneShReg_ShaderCompute (regOffset perfData) (gpuVirtAddr perfData)]
            else [])
         @ (if prefetch
            then [CopyPrefetch (take (unat (prefetch_spaceNeeded (cmd_prefetch (m_commands p))))
                                  (prefetch_words (cmd_prefetch (m_commands p))))]
            else []))"

text \<open>
  The command stream: what it answers to the two queries, and the words that one of
  its write functions puts at the write cursor, with the state of the stream (and of
  its optimizer) afterwards. The command space is a store of words and the write
  cursor \<open>pCmdSpace\<close> an index into it.
\<close>

record 's CmdStream =
  Pm4OptimizerEnabled :: "'s \<Rightarrow> bool"
  GetEngineType :: "'s \<Rightarrow> EngineType"
  stream_write :: "'s \<Rightarrow> CmdStreamCall \<Rightarrow> uint32 list \<times> 's"

type_synonym cmd_space = "(nat \<Rightarrow> uint32) \<times> nat"

definition put_words :: "cmd_space \<Rightarrow> uint32 list \<Rightarrow> cmd_space" where
  "put_words space ws =
     (case space of (mem, pCmdSpace) \<Rightarrow>
        (\<lambda>a. if pCmdSpace \<le> a \<and> a < pCmdSpace + length ws then ws ! (a - pCmdSpace) else mem a,
         pCmdSpace + length ws))"

fun perform_call :: "'s CmdStream \<Rightarrow> cmd_space \<times> 's \<Rightarrow> CmdStreamCall \<Rightarrow> cmd_space \<times> 's" where
  "perform_call stream (space, s) (CopyPrefetch ws) = (put_words space ws, s)"
| "perform_call stream (space, s) call =
     (put_words space (fst (stream_write stream s call)), snd (stream_write stream s call))"

text \<open>
  \<open>ComputePipeline::WriteCommands\<close>: the calls, performed on the stream from the
  write cursor on. The result is the command space with the advanced cursor, the stream,
  and the pipeline object: the function assigns to no member of it, the bind-time state
  goes into the local copy \<open>dynamicCmds\<close>.
\<close>

definition WriteCommands ::
  "'s CmdStream \<Rightarrow> ComputePipeline \<Rightarrow> 's \<Rightarrow> cmd_space \<Rightarrow> DynamicComputeShaderInfo \<Rightarrow> bool
     \<Rightarrow> cmd_space \<times> 's \<times> ComputePipeline" where
  "WriteCommands stream p s pCmdSpace csInfo prefetch =
     (let written = foldl (perform_call stream) (pCmdSpace, s)
                      (WriteCommands_calls p (Pm4OptimizerEnabled stream s) (GetEngineType stream s)
                         csInfo prefetch)
      in (fst written, snd written, p))"

text \<open>
  The words that a list of calls puts into the command space, one call after the other,
  and the stream afterwards.
\<close>

fun stream_output :: "'s CmdStream \<Rightarrow> 's \<Rightarrow> CmdStreamCall list \<Rightarrow> uint32 list \<times> 's" where
  "stream_output stream s [] = ([], s)"
| "stream_output stream s (CopyPrefetch ws # calls) =
     (ws @ fst (stream_output stream s calls), snd (stream_output stream s calls))"
| "stream_output stream s (call # calls) =
     (fst (stream_write stream s call)
        @ fst (stream_output stream (snd (stream_write stream s call)) calls),
      snd (stream_output stream (snd (stream_write stream s call)) calls))"

text \<open>
  To observe the calls that a stream receives, it is wrapped: the wrapped stream answers
  and writes as the stream does, and keeps the list of the calls of its write functions.
\<close>

definition logging :: "'s CmdStream \<Rightarrow> ('s \<times> CmdStreamCall list) CmdStream" where
  "logging stream =
     \<lparr>Pm4OptimizerEnabled = (\<lambda>sl. Pm4OptimizerEnabled stream (fst sl)),
      GetEngineType = (\<lambda>sl. GetEngineType stream (fst sl)),
      stream_write = (\<lambda>sl call. (fst (stream_write stream (fst sl) call),
                                   (snd (stream_write stream (fst sl) call), snd sl @ [call])))\<rparr>"


text \<open>The words between two positions of the write cursor.\<close>

definition words_between :: "(nat \<Rightarrow> uint32) \<Rightarrow> nat \<Rightarrow> nat \<Rightarrow> uint32 list" where
  "words_between mem from_pos to_pos = map mem [from_pos..<to_pos]"



subsection \<open>The dynamic image in HwlInit\<close>

text \<open>
  Modelled from the spec: the settings and the hardware generations
  (g_gfx9PalSettings.h, palDevice.h) are not among the sources. \<open>HwlInit\<close> names
  three values of the setting \<open>csSimdDestCntl\<close> and takes its \<open>default\<close> branch for
  every other one; it compares the generation with \<open>GfxIp9\<close> alone.
\<close>

datatype CsSimdDestCntl =
  CsSimdDestCntlDefault | CsSimdDestCntlForce1 | CsSimdDestCntlForce0 | CsSimdDestCntlOther uint32

datatype GfxIpLevel = GfxIpNone | GfxIp6 | GfxIp7 | GfxIp8 | GfxIp8_1 | GfxIp9




section \<open>Concrete inputs\<close>

definition sec_text :: Section where
  "sec_text = \<lparr>GetIndex = 1, GetName = ''.text'', sh_flags = 6, sh_addralign = 256,
                GetDataSize = 10, GetData = [1, 2, 3, 4, 5, 6, 7, 8, 9, 10]\<rparr>"

definition sec_data :: Section where
  "sec_data = \<lparr>GetIndex = 2, GetName = ''.data'', sh_flags = 3, sh_addralign = 4,
                GetDataSize = 6, GetData = [1, 2, 3, 4, 5, 6]\<rparr>"

definition sec_plain :: "uint64 \<Rightarrow> size_t \<Rightarrow> Section" where
  "sec_plain alignment n =
     \<lparr>GetIndex = 1, GetName = ''.data'', sh_flags = 3, sh_addralign = alignment,
      GetDataSize = n, GetData = []\<rparr>"

text \<open>
  A pipeline binary with the null section and a code section of 64 bytes, a device that
  allocates at GPU address \<open>0x1000\<close>, maps at CPU address \<open>0x7000\<close> and
  prefetches 256 bytes, and metadata for two hardware stages, the second with a
  performance buffer of the given size.
\<close>

definition ex_null :: Section where
  "ex_null = \<lparr>GetIndex = 0, GetName = [], sh_flags = 0, sh_addralign = 0,
               GetDataSize = 0, GetData = []\<rparr>"

definition ex_text :: Section where
  "ex_text = \<lparr>GetIndex = 1, GetName = ''.text'', sh_flags = 6, sh_addralign = 256,
               GetDataSize = 64, GetData = replicate 64 0xBF\<rparr>"

definition ex_abi :: AbiProcessor where
  "ex_abi = \<lparr>GetSections = [ex_null, ex_text], GetTextSection = ex_text,
              GetDataSection = ex_null, GetData_pBuffer = [], GetData_length = 0,
              GetData_alignment = 0, GetPipelineCode_pCode = replicate 64 0xBF,
              GetPipelineCode_length = 64,
              HasPipelineSymbolEntry = (\<lambda>t. if t = (ShaderMainEntry, 1)
                 then Some \<lparr>sym_sectionType = AbiSection_Code, sym_value = 0, sym_size = 64\<rparr>
                 else None)\<rparr>"

definition ex_gpuMem :: GpuMemory where
  "ex_gpuMem = \<lparr>Desc_gpuVirtAddr = 0x1000, Map_result = Success, Map_ppData = 0x7000,
                 Unmap_result = Success\<rparr>"

definition ex_device :: Device where
  "ex_device = \<lparr>AllocateGpuMem = (\<lambda>createInfo internalInfo readOnly. (Success, ex_gpuMem, 0)),
                 shaderPrefetchBytes = 256,
                 PatchPipelineInternalSrdTable = (\<lambda>src n va. src)\<rparr>"

definition ex_metadata :: "uint32 \<Rightarrow> CodeObjectMetadata" where
  "ex_metadata csPerfBytes =
     \<lparr>hardwareStage = [\<lparr>perfDataBufferSize = 0\<rparr>, \<lparr>perfDataBufferSize = csPerfBytes\<rparr>],
      hasEntry_spillThreshold = False, spillThreshold = 0,
      hasEntry_userDataLimit = False, userDataLimit = 0\<rparr>"

definition ex_perfDataInfo :: PerfDataInfo where
  "ex_perfDataInfo = \<lparr>regOffset = 0, cpuOffset = 0, gpuVirtAddr = 0, sizeInBytes = 0\<rparr>"

definition ex_upload_state :: upload_state where
  "ex_upload_state = (PipelineUploader_ctor 0 0 0xCDCDCDCD 0xCDCDCDCD,
                      [ex_perfDataInfo, ex_perfDataInfo],
                      PipelineSectionSegmentMapping_ctor 0, (\<lambda>a. 0xFF))"

text \<open>
  A device as above with the given prefetch distance, whose memory manager serves only
  the request of \<open>Begin\<close> for the given size, and fails for every other one.
\<close>

definition ex_device_exact :: "gpusize \<Rightarrow> uint32 \<Rightarrow> Device" where
  "ex_device_exact bytes prefetch =
     \<lparr>AllocateGpuMem = (\<lambda>createInfo internalInfo readOnly.
         if createInfo = allocation_request False bytes \<and> alwaysResident internalInfo \<and> \<not> readOnly
         then (Success, ex_gpuMem, 0)
         else (ErrorOutOfGpuMemory, ex_gpuMem, 0)),
      shaderPrefetchBytes = prefetch,
      PatchPipelineInternalSrdTable = (\<lambda>src n va. src)\<rparr>"

text \<open>
  A pipeline created from that binary: it retains an ELF of four bytes, has code of 64
  bytes recorded for the compute shader (hardware stage 1) and a performance buffer of
  16 bytes for stage 1; an ELF parser that loads the binary above; a pipeline that has
  none of the three; and a pipeline whose memory cannot be mapped.
\<close>

definition ex_pipeline :: Pipeline where
  "ex_pipeline =
     \<lparr>m_gpuMem = \<lparr>bound_Memory = Some ex_gpuMem, bound_Offset = 0,
                   bound_Map = (Success, 0x7000), bound_Unmap = Success\<rparr>,
      p_gpuMemSize = 320, p_dataLength = 0, p_dataOffset = 0,
      m_pPipelineBinary = Some [0x7F, 0x45, 0x4C, 0x46], m_pipelineBinaryLen = 4,
      m_perfDataInfo = [ex_perfDataInfo,
                        \<lparr>regOffset = 0, cpuOffset = 64, gpuVirtAddr = 0x1080, sizeInBytes = 16\<rparr>],
      GetShaderStageInfo = (\<lambda>shaderType. if shaderType = Compute
         then Some \<lparr>stageId = 1, codeLength = 64, disassemblyLength = 0\<rparr> else None)\<rparr>"

definition ex_LoadFromBuffer :: "uint8 list option \<Rightarrow> size_t \<Rightarrow> Result \<times> AbiProcessor" where
  "ex_LoadFromBuffer pBuffer bufferSize = (Success, ex_abi)"




text \<open>
  An ELF parser that fails, one that finds the entry symbol of stage 1 at the given
  value and of the given size, and the pipeline with a retained binary of
  \<open>2^32 + 4\<close> bytes.
\<close>

definition ex_LoadFromBuffer_failing :: "uint8 list option \<Rightarrow> size_t \<Rightarrow> Result \<times> AbiProcessor" where
  "ex_LoadFromBuffer_failing pBuffer bufferSize = (ErrorOther 1, ex_abi)"

definition ex_LoadFromBuffer_symbol ::
  "uint64 \<Rightarrow> uint64 \<Rightarrow> uint8 list option \<Rightarrow> size_t \<Rightarrow> Result \<times> AbiProcessor" where
  "ex_LoadFromBuffer_symbol v n pBuffer bufferSize =
     (Success, ex_abi\<lparr>HasPipelineSymbolEntry := (\<lambda>t. if t = (ShaderMainEntry, 1)
                 then Some \<lparr>sym_sectionType = AbiSection_Code, sym_value = v, sym_size = n\<rparr>
                 else None)\<rparr>)"


text \<open>
  Constants as a GFX9 part has them (sixteen user-data registers from \<open>0x2E40\<close>, the
  first two for the global and the per-shader table), and register-value lists for
  them: one without ordinals, one with the ordinals 0, 1, 2 in the first three
  user-data slots, one with the ordinal 2 one slot further, one with the spill table.
\<close>

definition ex_consts :: UserDataConsts where
  "ex_consts =
     \<lparr>MaxUserDataEntries = 16, mmCOMPUTE_USER_DATA_0 = 0x2E40, mmCOMPUTE_USER_DATA_15 = 0x2E4F,
      FastUserDataStartReg = 2, NoUserDataSpilling = 0xFFFF,
      UserDataMapping_GlobalTable = 0x10000000, UserDataMapping_PerShaderTable = 0x10000001,
      UserDataMapping_SpillTable = 0x10000002, UserDataMapping_Workgroup = 0x10000006,
      UserDataMapping_GdsRange = 0x10000007, UserDataMapping_PerShaderPerfData = 0x10000008\<rparr>"

definition ex_registers_none :: RegisterVector where
  "ex_registers_none = map_of [(0x2E40, 0x10000000), (0x2E41, 0x10000001)]"

definition ex_registers_first3 :: RegisterVector where
  "ex_registers_first3 =
     map_of [(0x2E40, 0x10000000), (0x2E41, 0x10000001), (0x2E42, 0), (0x2E43, 1), (0x2E44, 2)]"

definition ex_registers_gap :: RegisterVector where
  "ex_registers_gap =
     map_of [(0x2E40, 0x10000000), (0x2E41, 0x10000001), (0x2E42, 0), (0x2E43, 1), (0x2E45, 2)]"

definition ex_registers_spill :: RegisterVector where
  "ex_registers_spill =
     map_of [(0x2E40, 0x10000000), (0x2E41, 0x10000001), (0x2E42, 0x10000002)]"

text \<open>
  A compute pipeline of a GFX9 part: the fields of \<open>COMPUTE_RESOURCE_LIMITS\<close> and
  \<open>COMPUTE_PGM_RSRC2\<close> at their bit positions, a dynamic image as the constructor
  leaves it, chip properties, a command stream that writes the words of an image and
  counts its calls, and a pipeline with small images.
\<close>

definition ex_decode_limits :: "uint32 \<Rightarrow> regCOMPUTE_RESOURCE_LIMITS" where
  "ex_decode_limits v =
     \<lparr>WAVES_PER_SH = ucast v, TG_PER_CU = ucast (drop_bit 12 v),
      LOCK_THRESHOLD = ucast (drop_bit 16 v), SIMD_DEST_CNTL = ucast (drop_bit 22 v),
      FORCE_SIMD_DIST = ucast (drop_bit 23 v), limits_other_bits = v\<rparr>"

definition ex_dynamic_zero :: Pm4ImageDynamic where
  "ex_dynamic_zero =
     \<lparr>hdrComputePgmRsrc2 = [0],
      computePgmRsrc2 = \<lparr>LDS_SIZE = 0, TRAP_PRESENT = 0, rsrc2_other_bits = 0\<rparr>,
      hdrComputeResourceLimits = [0],
      computeResourceLimits = ex_decode_limits 0\<rparr>"

definition ex_chip :: "uint32 \<Rightarrow> uint32 \<Rightarrow> Gfx9ChipProperties" where
  "ex_chip arrays cus =
     \<lparr>numShaderArrays = arrays, numCuPerSh = cus, numSimdPerCu = 4, numWavesPerSimd = 10\<rparr>"

definition ex_encode_limits :: "regCOMPUTE_RESOURCE_LIMITS \<Rightarrow> uint32" where
  "ex_encode_limits r =
     ucast (WAVES_PER_SH r) OR push_bit 12 (ucast (TG_PER_CU r))
       OR push_bit 16 (ucast (LOCK_THRESHOLD r)) OR push_bit 22 (ucast (SIMD_DEST_CNTL r))
       OR push_bit 23 (ucast (FORCE_SIMD_DIST r))"

definition ex_encode_rsrc2 :: "regCOMPUTE_PGM_RSRC2 \<Rightarrow> uint32" where
  "ex_encode_rsrc2 r = push_bit 6 (ucast (TRAP_PRESENT r)) OR push_bit 15 (ucast (LDS_SIZE r))"

fun ex_image_words :: "Pm4Image \<Rightarrow> uint32 list" where
  "ex_image_words (ImageSet i) =
     hdrComputeNumThread i @ [computeNumThreadX i, computeNumThreadY i, computeNumThreadZ i]
       @ hdrComputePgm i @ [computePgmLo i, computePgmHi i]
       @ hdrComputePgmRsrc1 i @ [computePgmRsrc1 i]
       @ hdrComputeUserData i @ [computeUserDataLo i]
       @ hdrComputeShaderChksum i @ [computeShaderChksum i]"
| "ex_image_words (ImageLoadIndex i) = loadShRegIndex_header i # loadShRegIndex_body i"
| "ex_image_words (ImageDynamic i) =
     hdrComputePgmRsrc2 i @ [ex_encode_rsrc2 (computePgmRsrc2 i)]
       @ hdrComputeResourceLimits i @ [ex_encode_limits (computeResourceLimits i)]"

fun ex_stream_write :: "nat \<Rightarrow> CmdStreamCall \<Rightarrow> uint32 list \<times> nat" where
  "ex_stream_write s (WritePm4Image n img) = (take (unat n) (ex_image_words img), s + 1)"
| "ex_stream_write s (WriteSetOneShReg_ShaderCompute r v) = ([0xC0017600, r, v], s + 1)"
| "ex_stream_write s (CopyPrefetch ws) = (ws, s)"

definition ex_stream :: "bool \<Rightarrow> EngineType \<Rightarrow> nat CmdStream" where
  "ex_stream optimizerEnabled engineType =
     \<lparr>Pm4OptimizerEnabled = (\<lambda>s. optimizerEnabled), GetEngineType = (\<lambda>s. engineType),
      stream_write = ex_stream_write\<rparr>"

definition ex_compute_pipeline :: "uint32 \<Rightarrow> ComputePipeline" where
  "ex_compute_pipeline loadIndexHeader =
     \<lparr>m_commands =
        \<lparr>cmd_set =
           \<lparr>hdrComputeNumThread = [0xC0027600], computeNumThreadX = 64, computeNumThreadY = 1,
            computeNumThreadZ = 1,
            hdrComputePgm = [0xC0027601], computePgmLo = 0x1000, computePgmHi = 0,
            hdrComputePgmRsrc1 = [0xC0017602], computePgmRsrc1 = 0x2C0,
            hdrComputeUserData = [0xC0017603], computeUserDataLo = 0x2000,
            hdrComputeShaderChksum = [], computeShaderChksum = 0,
            set_spaceNeeded = 12\<rparr>,
         cmd_loadIndex = \<lparr>loadShRegIndex_header = loadIndexHeader, loadShRegIndex_body = [0x3000, 0, 0, 5]\<rparr>,
         cmd_dynamic = ex_dynamic_zero\<lparr>hdrComputePgmRsrc2 := [0xC0017604],
                                       hdrComputeResourceLimits := [0xC0017605]\<rparr>,
         cmd_prefetch = \<lparr>prefetch_words = [0xC0055000, 7, 8], prefetch_spaceNeeded = 3\<rparr>\<rparr>,
      m_perfDataInfo_HwCs = \<lparr>regOffset = 0x2E4A, cpuOffset = 0x40, gpuVirtAddr = 0x1080, sizeInBytes = 16\<rparr>,
      chipProps_gfx9 = ex_chip 4 3\<rparr>"

definition ex_csInfo :: DynamicComputeShaderInfo where
  "ex_csInfo = \<lparr>maxWavesPerCu = 2, maxThreadGroupsPerCu = 20, ldsBytesPerTg = 1024\<rparr>"


chapter \<open>Properties\<close>

section \<open>Rounding up to a power of two\<close>

lemma and_not_mask_eq: "(w :: 'a::len word) AND NOT (mask k) = push_bit k (drop_bit k w)"
  by (rule bit_word_eqI) (auto simp add: bit_simps)

lemma unat_and_not_mask: "unat ((w :: 'a::len word) AND NOT (mask k)) = (unat w div 2 ^ k) * 2 ^ k"
proof -
  have le: "(unat w div 2 ^ k) * 2 ^ k \<le> unat w"
    by simp
  have "unat w < 2 ^ LENGTH('a)"
    by (rule unsigned_less)
  with le have lt: "(unat w div 2 ^ k) * 2 ^ k < 2 ^ LENGTH('a)"
    by (rule le_less_trans)
  have "unat (push_bit k (drop_bit k w)) = take_bit LENGTH('a) (push_bit k (drop_bit k (unat w)))"
    by (simp add: unsigned_push_bit_eq unat_drop_bit_eq)
  also have "\<dots> = (unat w div 2 ^ k) * 2 ^ k"
    using lt by (simp add: push_bit_eq_mult drop_bit_eq_div take_bit_nat_eq_self_iff)
  finally show ?thesis by (simp add: and_not_mask_eq)
qed

lemma round_up_bounds:
  assumes "0 < a"
  shows "n \<le> round_up n a" and "round_up n a < n + a"
proof -
  have eq: "n + a - 1 = ((n + a - 1) div a) * a + (n + a - 1) mod a"
    by simp
  have "(n + a - 1) mod a < a"
    using assms by simp
  with eq assms show "n \<le> round_up n a" and "round_up n a < n + a"
    unfolding round_up_def by linarith+
qed

lemma round_up_dvd: "a dvd round_up n a"
  by (simp add: round_up_def)

lemma round_up_least:
  assumes "0 < a" "a dvd m" "n \<le> m"
  shows "round_up n a \<le> m"
proof -
  from assms(2) obtain c where m: "m = c * a"
    by (auto simp: dvd_def mult.commute)
  have "n + a - 1 < (c + 1) * a"
    using assms(1,3) m by simp
  then have "(n + a - 1) div a < c + 1"
    using assms(1) by (simp add: less_mult_imp_div_less)
  then have "(n + a - 1) div a \<le> c"
    by simp
  then show ?thesis
    unfolding round_up_def m by simp
qed

lemma pow2_room:
  assumes "(2::nat) ^ k dvd r" "r < 2 ^ 64" "k < 64"
  shows "r + 2 ^ k \<le> 2 ^ 64"
proof -
  from assms(1) obtain q where r: "r = q * 2 ^ k"
    by (auto simp: dvd_def mult.commute)
  have p: "(2::nat) ^ 64 = 2 ^ (64 - k) * 2 ^ k"
    using assms(3) by (simp add: power_add [symmetric])
  have "q * 2 ^ k < 2 ^ (64 - k) * (2::nat) ^ k"
    using assms(2) r p by simp
  then have "q < 2 ^ (64 - k)"
    by simp
  then have "Suc q \<le> 2 ^ (64 - k)"
    by simp
  then have "Suc q * 2 ^ k \<le> 2 ^ (64 - k) * (2::nat) ^ k"
    by (rule mult_le_mono1)
  then show ?thesis
    unfolding r p by simp
qed

lemma Pow2Align_mask: "Pow2Align v (2 ^ k) = (v + mask k) AND NOT (mask k)"
  by (simp add: Pow2Align_def mask_eq_decr_exp add_diff_eq)

lemma Pow2Align_dvd: "2 ^ k dvd unat (Pow2Align v (2 ^ k))"
  by (simp add: Pow2Align_mask unat_and_not_mask)

lemma unat_mask64:
  assumes "k < 64"
  shows "unat (mask k :: uint64) = 2 ^ k - 1"
proof -
  have "(2::nat) ^ k \<le> 2 ^ 64"
    by (rule power_increasing) (use assms in simp_all)
  then have lt: "(mask k :: nat) < 2 ^ 64"
    by (simp add: mask_eq_exp_minus_1 less_le_trans [of "2 ^ k - 1" "2 ^ k"])
  have "unat (mask k :: uint64) = unat (of_nat (mask k) :: uint64)"
    by (simp only: of_nat_mask_eq)
  also have "\<dots> = mask k"
    using lt by (simp add: unat_of_nat)
  finally show ?thesis
    by (simp add: mask_eq_exp_minus_1)
qed

lemma Pow2Align_round_up:
  assumes k: "k < 64" and fits: "round_up (unat v) (2 ^ k) < 2 ^ 64"
  shows "unat (Pow2Align v (2 ^ k)) = round_up (unat v) (2 ^ k)"
proof -
  have "round_up (unat v) (2 ^ k) + 2 ^ k \<le> 2 ^ 64"
    using round_up_dvd fits k by (rule pow2_room)
  moreover have "unat v \<le> round_up (unat v) (2 ^ k)"
    by (rule round_up_bounds) simp
  ultimately have room: "unat v + (2 ^ k - 1) < 2 ^ 64"
    by simp
  have "unat (v + mask k) = unat v + (2 ^ k - 1)"
    using room unat_mask64 [OF k] by (simp add: unat_add_lem [THEN iffD1])
  then show ?thesis
    by (simp add: Pow2Align_mask unat_and_not_mask round_up_def)
qed




section \<open>The section layout planner (claim C2)\<close>

lemma AddSections_Nil [simp]: "AddSections m [] = m"
  by (simp add: AddSections_def)

lemma AddSections_snoc [simp]: "AddSections m (secs @ [s]) = AddSection (AddSections m secs) s"
  by (simp add: AddSections_def)

lemma AddSection_sections:
  "m_sections (AddSection m s) =
     m_sections m @ [\<lparr>info_id = GetIndex s, info_offset = Pow2Align (m_size m) (sh_addralign s)\<rparr>]"
  by (simp add: AddSection_def Let_def)

lemma AddSection_size:
  "m_size (AddSection m s) = Pow2Align (m_size m) (sh_addralign s) + GetDataSize s"
  by (simp add: AddSection_def Let_def)

lemma AddSection_alignment:
  "m_alignment (AddSection m s) = max (m_alignment m) (sh_addralign s)"
  by (auto simp add: AddSection_def Let_def max_def)

lemma length_AddSections:
  "length (m_sections (AddSections m secs)) = length (m_sections m) + length secs"
  by (induction secs rule: rev_induct) (simp_all add: AddSection_sections)

lemma ids_AddSections:
  "map info_id (m_sections (AddSections m secs)) = map info_id (m_sections m) @ map GetIndex secs"
  by (induction secs rule: rev_induct) (simp_all add: AddSection_sections)

lemma alignment_AddSections:
  "m_alignment (AddSections m secs) = Max (insert (m_alignment m) (sh_addralign ` set secs))"
proof (induction secs rule: rev_induct)
  case Nil
  then show ?case by simp
next
  case (snoc s secs)
  have "Max (insert (m_alignment m) (sh_addralign ` set (secs @ [s])))
      = Max (insert (sh_addralign s) (insert (m_alignment m) (sh_addralign ` set secs)))"
    by (simp add: insert_commute)
  also have "\<dots> = max (sh_addralign s) (Max (insert (m_alignment m) (sh_addralign ` set secs)))"
    by (rule Max_insert) simp_all
  finally show ?case
    using snoc by (simp add: AddSection_alignment max.commute)
qed

lemma planned_size_snoc:
  "planned_size n (secs @ [s]) =
     round_up (planned_size n secs) (unat (sh_addralign s)) + unat (GetDataSize s)"
  by (induction secs arbitrary: n) simp_all

lemma unat_exp64:
  assumes "k < 64"
  shows "unat (2 ^ k :: uint64) = 2 ^ k"
proof -
  have "(2::nat) ^ k < 2 ^ 64"
    by (rule power_strict_increasing) (use assms in simp_all)
  moreover have "(2 ^ k :: uint64) = of_nat (2 ^ k)"
    by simp
  ultimately show ?thesis
    by (simp only: unat_of_nat) simp
qed

lemma IsPowerOfTwoE:
  assumes "IsPowerOfTwo a"
  obtains k where "k < 64" "a = 2 ^ k" "unat a = 2 ^ k"
proof -
  from assms obtain k where k: "k < 64" "a = 2 ^ k"
    by (auto simp: IsPowerOfTwo_def)
  then have "unat a = 2 ^ k"
    by (simp add: unat_exp64)
  with k that show thesis by blast
qed

lemma AddSection_step:
  assumes "IsPowerOfTwo (sh_addralign s)"
    and "round_up (unat (m_size m)) (unat (sh_addralign s)) + unat (GetDataSize s) < 2 ^ 64"
  shows "unat (Pow2Align (m_size m) (sh_addralign s)) = round_up (unat (m_size m)) (unat (sh_addralign s))"
    and "unat (m_size (AddSection m s)) =
           round_up (unat (m_size m)) (unat (sh_addralign s)) + unat (GetDataSize s)"
proof -
  from assms(1) obtain k where k: "k < 64" "sh_addralign s = 2 ^ k" "unat (sh_addralign s) = 2 ^ k"
    by (rule IsPowerOfTwoE)
  have "round_up (unat (m_size m)) (2 ^ k) < 2 ^ 64"
    using assms(2) k by simp
  with k(1) have r: "unat (Pow2Align (m_size m) (2 ^ k)) = round_up (unat (m_size m)) (2 ^ k)"
    by (rule Pow2Align_round_up)
  then show a: "unat (Pow2Align (m_size m) (sh_addralign s)) = round_up (unat (m_size m)) (unat (sh_addralign s))"
    using k by simp
  show "unat (m_size (AddSection m s)) =
           round_up (unat (m_size m)) (unat (sh_addralign s)) + unat (GetDataSize s)"
    using assms(2) a by (simp add: AddSection_size unat_add_lem [THEN iffD1])
qed


lemma IsPowerOfTwo_pos: "IsPowerOfTwo a \<Longrightarrow> 0 < unat a"
  by (erule IsPowerOfTwoE) simp

lemma planned_size_grows:
  assumes "IsPowerOfTwo (sh_addralign s)"
  shows "planned_size n secs \<le> planned_size n (secs @ [s])"
proof -
  have "planned_size n secs \<le> round_up (planned_size n secs) (unat (sh_addralign s))"
    using assms by (intro round_up_bounds IsPowerOfTwo_pos)
  then show ?thesis
    by (simp add: planned_size_snoc)
qed

lemma size_AddSections:
  assumes "\<forall>s \<in> set secs. IsPowerOfTwo (sh_addralign s)"
    and "planned_size (unat (m_size m)) secs < 2 ^ 64"
  shows "unat (m_size (AddSections m secs)) = planned_size (unat (m_size m)) secs"
  using assms
proof (induction secs rule: rev_induct)
  case Nil
  then show ?case by simp
next
  case (snoc s secs)
  have pow: "IsPowerOfTwo (sh_addralign s)"
    using snoc.prems(1) by simp
  have "planned_size (unat (m_size m)) secs \<le> planned_size (unat (m_size m)) (secs @ [s])"
    using pow by (rule planned_size_grows)
  with snoc have ih: "unat (m_size (AddSections m secs)) = planned_size (unat (m_size m)) secs"
    by simp
  have "round_up (unat (m_size (AddSections m secs))) (unat (sh_addralign s)) + unat (GetDataSize s) < 2 ^ 64"
    using snoc.prems(2) by (simp add: ih planned_size_snoc)
  with pow show ?case
    by (simp add: AddSection_step(2) ih planned_size_snoc)
qed

lemma offset_AddSections:
  assumes "\<forall>s \<in> set secs. IsPowerOfTwo (sh_addralign s)"
    and "planned_size (unat (m_size m)) secs < 2 ^ 64"
    and "i < length secs"
  shows "unat (info_offset (m_sections (AddSections m secs) ! (length (m_sections m) + i))) =
           round_up (planned_size (unat (m_size m)) (take i secs)) (unat (sh_addralign (secs ! i)))"
  using assms
proof (induction secs rule: rev_induct)
  case Nil
  then show ?case by simp
next
  case (snoc s secs)
  have pow: "IsPowerOfTwo (sh_addralign s)"
    using snoc.prems(1) by simp
  have fits: "planned_size (unat (m_size m)) secs < 2 ^ 64"
    using planned_size_grows [OF pow, of "unat (m_size m)" secs] snoc.prems(2) by simp
  show ?case
  proof (cases "i < length secs")
    case True
    then show ?thesis
      using snoc.IH snoc.prems(1) fits
      by (simp add: AddSection_sections nth_append length_AddSections)
  next
    case False
    with snoc.prems(3) have i: "i = length secs"
      by simp
    have sz: "unat (m_size (AddSections m secs)) = planned_size (unat (m_size m)) secs"
      using snoc.prems(1) fits by (intro size_AddSections) simp_all
    have "round_up (unat (m_size (AddSections m secs))) (unat (sh_addralign s)) + unat (GetDataSize s) < 2 ^ 64"
      using snoc.prems(2) by (simp add: sz planned_size_snoc)
    with pow have "unat (Pow2Align (m_size (AddSections m secs)) (sh_addralign s)) =
        round_up (planned_size (unat (m_size m)) secs) (unat (sh_addralign s))"
      by (simp add: AddSection_step(1) sz)
    then show ?thesis
      by (simp add: i AddSection_sections nth_append length_AddSections)
  qed
qed


text \<open>
  Claim C2, as amended. For every ordered list of sections added to a freshly constructed
  planner, provided that every alignment is a power of two and that the layout, computed
  on unbounded integers, stays below \<open>2^64\<close> (no 64-bit addition of the planner
  wraps around): every section gets one offset, each offset is a multiple of its
  section's alignment, each offset is at least the previous offset plus the previous
  size, the reported size is the last offset plus the last size (0 for no sections),
  and the reported alignment is the maximum alignment of the sections (0 for no
  sections). The order and the multiples are those of the unsigned values.
\<close>

theorem section_layout_offsets:
  assumes "freshly_constructed m0"
    and "\<forall>s \<in> set secs. IsPowerOfTwo (sh_addralign s)"
    and "planned_size 0 secs < 2 ^ 64"
  shows "let m = AddSections m0 secs; offs = map info_offset (m_sections m) in
           length offs = length secs \<and>
           (\<forall>i < length secs. unat (sh_addralign (secs ! i)) dvd unat (offs ! i)) \<and>
           (\<forall>i. Suc i < length secs \<longrightarrow>
                 unat (offs ! i) + unat (GetDataSize (secs ! i)) \<le> unat (offs ! Suc i)) \<and>
           unat (GetSize m) =
             (if secs = [] then 0 else unat (last offs) + unat (GetDataSize (last secs))) \<and>
           GetAlignment m = Max (insert 0 (sh_addralign ` set secs))"
proof -
  define m where "m = AddSections m0 secs"
  define offs where "offs = map info_offset (m_sections m)"
  from assms(1) have m0: "m_alignment m0 = 0" "m_size m0 = 0" "m_sections m0 = []"
    by (simp_all add: freshly_constructed_def)
  have len: "length offs = length secs"
    by (simp add: offs_def m_def length_AddSections m0)
  have off: "unat (offs ! i) = round_up (planned_size 0 (take i secs)) (unat (sh_addralign (secs ! i)))"
    if "i < length secs" for i
    using offset_AddSections [of secs m0 i] assms(2,3) that len
    by (simp add: offs_def m_def m0 length_AddSections)
  have aligned: "\<forall>i < length secs. unat (sh_addralign (secs ! i)) dvd unat (offs ! i)"
    by (simp add: off round_up_dvd)
  have ordered: "unat (offs ! i) + unat (GetDataSize (secs ! i)) \<le> unat (offs ! Suc i)"
    if "Suc i < length secs" for i
  proof -
    have "IsPowerOfTwo (sh_addralign (secs ! Suc i))"
      using assms(2) that by simp
    then have "planned_size 0 (take (Suc i) secs) \<le> unat (offs ! Suc i)"
      using that by (simp only: off) (intro round_up_bounds IsPowerOfTwo_pos)
    moreover have "planned_size 0 (take (Suc i) secs) = unat (offs ! i) + unat (GetDataSize (secs ! i))"
      using that by (simp add: take_Suc_conv_app_nth planned_size_snoc off)
    ultimately show ?thesis
      by simp
  qed
  have size: "unat (GetSize m) = (if secs = [] then 0 else unat (last offs) + unat (GetDataSize (last secs)))"
  proof (cases secs rule: rev_cases)
    case Nil
    then show ?thesis
      by (simp add: GetSize_def m_def m0)
  next
    case (snoc ss s)
    have "unat (m_size m) = planned_size 0 (ss @ [s])"
      using size_AddSections [of secs m0] assms(2,3) by (simp add: m_def m0 snoc)
    moreover have "last offs = offs ! length ss"
      using len by (cases offs rule: rev_cases) (auto simp add: snoc nth_append)
    moreover have "unat (offs ! length ss) = round_up (planned_size 0 ss) (unat (sh_addralign s))"
      using off [of "length ss"] by (simp add: snoc)
    ultimately show ?thesis
      by (simp add: GetSize_def snoc planned_size_snoc)
  qed
  have "GetAlignment m = Max (insert 0 (sh_addralign ` set secs))"
    by (simp add: GetAlignment_def m_def alignment_AddSections m0)
  with len aligned ordered size show ?thesis
    unfolding Let_def m_def [symmetric] offs_def [symmetric] by blast
qed

text \<open>
  Witness for C2: a code section of 10 bytes aligned to 256 and two data sections of
  6 bytes aligned to 4 are placed at offsets 0, 12 and 20.
\<close>

lemma IsPowerOfTwo_4: "IsPowerOfTwo 4"
  unfolding IsPowerOfTwo_def by (rule bexI [of _ 2]) simp_all

lemma IsPowerOfTwo_256: "IsPowerOfTwo 256"
  unfolding IsPowerOfTwo_def by (rule bexI [of _ 8]) simp_all

lemma layout_example:
  "map info_offset (m_sections (AddSections SectionMemoryMap_ctor [sec_text, sec_data, sec_data])) = [0, 12, 20]"
  by (simp add: AddSections_def AddSection_def SectionMemoryMap_ctor_def sec_text_def sec_data_def Pow2Align_def)

theorem section_layout_offsets_witness:
  "map info_offset (m_sections (AddSections SectionMemoryMap_ctor [sec_text, sec_data, sec_data])) = [0, 12, 20] \<and>
   GetSize (AddSections SectionMemoryMap_ctor [sec_text, sec_data, sec_data]) = 26 \<and>
   GetAlignment (AddSections SectionMemoryMap_ctor [sec_text, sec_data, sec_data]) = 256"
proof -
  have 1: "freshly_constructed SectionMemoryMap_ctor"
    by (simp add: freshly_constructed_def SectionMemoryMap_ctor_def)
  have 2: "\<forall>s \<in> set [sec_text, sec_data, sec_data]. IsPowerOfTwo (sh_addralign s)"
    by (simp add: sec_text_def sec_data_def IsPowerOfTwo_4 IsPowerOfTwo_256)
  have 3: "planned_size 0 [sec_text, sec_data, sec_data] < 2 ^ 64"
    by (simp add: sec_text_def sec_data_def round_up_def)
  from section_layout_offsets [OF 1 2 3] layout_example show ?thesis
    by (simp add: Let_def sec_text_def sec_data_def GetSize_def GetAlignment_def word_unat_eq_iff)
qed


text \<open>
  Claim C2 as stated, for any alignments and sizes, fails at three inputs. A section of
  alignment 0 (which ELF allows, meaning no constraint) is placed at offset 0, on top
  of the section before it. With the alignment 3 the second offset is 1, not a multiple
  of 3. A section of \<open>2^64 - 1\<close> bytes followed by a section of alignment 2 makes the
  rounding wrap around: the second section is placed at offset 0 again.
\<close>

theorem section_layout_counterexample:
  "map info_offset (m_sections (AddSections SectionMemoryMap_ctor [sec_plain 1 4, sec_plain 0 4])) = [0, 0] \<and>
   \<not> (unat (0 :: gpusize) + unat (GetDataSize (sec_plain 1 4)) \<le> unat (0 :: gpusize)) \<and>
   map info_offset (m_sections (AddSections SectionMemoryMap_ctor [sec_plain 3 1, sec_plain 3 1])) = [0, 1] \<and>
   \<not> (unat (sh_addralign (sec_plain 3 1)) dvd unat (1 :: gpusize)) \<and>
   map info_offset (m_sections (AddSections SectionMemoryMap_ctor
      [sec_plain 1 0xFFFFFFFFFFFFFFFF, sec_plain 2 0])) = [0, 0] \<and>
   \<not> (unat (0 :: gpusize) + unat (GetDataSize (sec_plain 1 0xFFFFFFFFFFFFFFFF)) \<le> unat (0 :: gpusize))"
  by (simp add: AddSections_def AddSection_def SectionMemoryMap_ctor_def sec_plain_def Pow2Align_def)

section \<open>Evaluating the uploader on the concrete inputs\<close>

lemmas ex_defs = ex_null_def ex_text_def ex_abi_def ex_gpuMem_def ex_device_def ex_metadata_def
  ex_perfDataInfo_def ex_upload_state_def PipelineUploader_ctor_def
  PipelineSectionSegmentMapping_ctor_def

lemmas Begin_defs = Begin_def Begin_Mapped_def Begin_RegisterTable_def AddSection_def Pow2Align_def
  ShfWrite_def ShfExecInstr_def GetSize_def GetNumSections_def GetSectionIndex_def
  GetSectionOffset_def Sections_GetSectionIndex_def Sections_Get_def VoidPtrInc_def
  GetSymbolForStage_def LowPart_def Let_def

lemma upt_2: "[0..<2] = [0, 1]"
  by (simp add: upt_rec)

section \<open>The allocation size of the uploader (claim C1)\<close>

text \<open>
  What a successful \<open>Begin\<close> has done, in the arithmetic of the code: the mapping holds
  the uploaded sections, the recorded size is the clamped sum, and the memory object and
  the base offset are what \<open>AllocateGpuMem\<close> handed out for the request of that size.
\<close>

lemma Begin_AddSections_filter:
  "Begin_AddSections mapping secs = AddSections mapping (filter uploaded secs)"
  by (induction secs arbitrary: mapping) (simp_all add: AddSections_def uploaded_def Let_def)

lemma Begin_PerfDataLayout_size:
  "fst (Begin_PerfDataLayout metadata stages (n, off, infos)) =
     n + sum_list (map (\<lambda>s. ucast (perfDataBufferSize (hardwareStage metadata ! s))) stages)"
  by (induction stages arbitrary: n off infos) (simp_all add: Let_def add.assoc)

lemma perf_sum_all_stages:
  "sum_list (map (\<lambda>s. ucast (perfDataBufferSize (hardwareStage metadata ! s)) :: gpusize)
       [0..<length (hardwareStage metadata)]) =
   sum_list (map (\<lambda>stage. ucast (perfDataBufferSize stage)) (hardwareStage metadata))"
proof -
  have "map (\<lambda>s. ucast (perfDataBufferSize (hardwareStage metadata ! s)) :: gpusize)
          [0..<length (hardwareStage metadata)] =
        map (\<lambda>stage. ucast (perfDataBufferSize stage))
          (map (\<lambda>s. hardwareStage metadata ! s) [0..<length (hardwareStage metadata)])"
    by simp
  then show ?thesis
    by (simp only: map_nth)
qed

lemma Begin_RegisterTable_kept:
  "m_gpuMemSize (Begin_RegisterTable up va p) = m_gpuMemSize up"
  "m_pGpuMemory (Begin_RegisterTable up va p) = m_pGpuMemory up"
  "m_baseOffset (Begin_RegisterTable up va p) = m_baseOffset up"
  by (simp_all add: Begin_RegisterTable_def Let_def)

lemma Begin_Mapped_kept:
  "Begin_Mapped pDevice abiProcessor metadata n gpuMem (up, infos, mapping, mem) =
      (result, up', infos', mapping', mem') \<Longrightarrow>
     m_gpuMemSize up' = n \<and> m_pGpuMemory up' = m_pGpuMemory up \<and>
     m_baseOffset up' = m_baseOffset up \<and> mapping' = mapping"
  by (auto simp add: Begin_Mapped_def Let_def Begin_RegisterTable_kept
      split: prod.splits sum.splits if_splits)

lemma Begin_Success:
  assumes "Begin ShaderICacheLineSize pDevice abiProcessor metadata preferNonLocalHeap
             (up, pPerfDataInfoList, mapping0, mem) = (Success, up', infos', mapping', mem')"
  shows "mapping' = AddSections mapping0 (filter uploaded (GetSections abiProcessor))"
    and "m_gpuMemSize up' =
           max ((if m_ctxRegisterCount up + m_shRegisterCount up > 0
                 then Pow2Align (GetSize mapping') 4
                        + ucast (8 * (m_ctxRegisterCount up + m_shRegisterCount up))
                 else GetSize mapping')
                + sum_list (map (\<lambda>stage. ucast (perfDataBufferSize stage)) (hardwareStage metadata)))
               (Pow2Align (GetDataSize (GetTextSection abiProcessor)) ShaderICacheLineSize
                  + ucast (shaderPrefetchBytes pDevice))"
    and "AllocateGpuMem pDevice (allocation_request preferNonLocalHeap (m_gpuMemSize up'))
           \<lparr>alwaysResident = True\<rparr> False
         = (Success, the (m_pGpuMemory up'), m_baseOffset up')"
    and "m_pGpuMemory up' \<noteq> None"
proof -
  let ?mapping = "Begin_AddSections mapping0 (GetSections abiProcessor)"
  let ?size = "max ((if m_ctxRegisterCount up + m_shRegisterCount up > 0
                 then Pow2Align (GetSize ?mapping) 4
                        + ucast (8 * (m_ctxRegisterCount up + m_shRegisterCount up))
                 else GetSize ?mapping)
                + sum_list (map (\<lambda>stage. ucast (perfDataBufferSize stage)) (hardwareStage metadata)))
               (Pow2Align (GetDataSize (GetTextSection abiProcessor)) ShaderICacheLineSize
                  + ucast (shaderPrefetchBytes pDevice))"
  let ?allocated = "AllocateGpuMem pDevice (allocation_request preferNonLocalHeap ?size)
                      \<lparr>alwaysResident = True\<rparr> False"
  from assms have all: "mapping' = ?mapping \<and> m_gpuMemSize up' = ?size \<and>
      fst ?allocated = Success \<and> m_pGpuMemory up' = Some (fst (snd ?allocated)) \<and>
      m_baseOffset up' = snd (snd ?allocated)"
    by (auto simp add: Begin_def Let_def allocation_request_def
        Begin_PerfDataLayout_size perf_sum_all_stages
        split: if_splits dest!: Begin_Mapped_kept)
  then show "mapping' = AddSections mapping0 (filter uploaded (GetSections abiProcessor))"
    by (simp add: Begin_AddSections_filter)
  from all show "m_gpuMemSize up' =
           max ((if m_ctxRegisterCount up + m_shRegisterCount up > 0
                 then Pow2Align (GetSize mapping') 4
                        + ucast (8 * (m_ctxRegisterCount up + m_shRegisterCount up))
                 else GetSize mapping')
                + sum_list (map (\<lambda>stage. ucast (perfDataBufferSize stage)) (hardwareStage metadata)))
               (Pow2Align (GetDataSize (GetTextSection abiProcessor)) ShaderICacheLineSize
                  + ucast (shaderPrefetchBytes pDevice))"
    by simp
  from all show "AllocateGpuMem pDevice (allocation_request preferNonLocalHeap (m_gpuMemSize up'))
           \<lparr>alwaysResident = True\<rparr> False
         = (Success, the (m_pGpuMemory up'), m_baseOffset up')"
    by (simp add: prod_eq_iff)
  from all show "m_pGpuMemory up' \<noteq> None"
    by simp
qed

text \<open>
  The arithmetic of the code is that of the spec as long as nothing wraps around: the
  byte count of the register table in 32 bits, the sums in 64 bits.
\<close>

lemma unat_plus64:
  fixes a b :: uint64
  assumes "unat a + unat b < 2 ^ 64"
  shows "unat (a + b) = unat a + unat b"
  using assms by (simp add: unat_add_lem [THEN iffD1])

lemma unat_ucast_32_64:
  fixes w :: uint32
  shows "unat (ucast w :: uint64) = unat w"
proof -
  have "unat w < 2 ^ 32"
    using unsigned_less [of w] by simp
  then have "unat w < 2 ^ 64"
    by simp
  then show ?thesis
    by (simp add: unsigned_ucast_eq take_bit_nat_eq_self_iff)
qed

lemma unat_perf_sum:
  assumes "sum_list (map (\<lambda>stage. unat (perfDataBufferSize stage)) stages) < 2 ^ 64"
  shows "unat (sum_list (map (\<lambda>stage. ucast (perfDataBufferSize stage) :: uint64) stages)) =
         sum_list (map (\<lambda>stage. unat (perfDataBufferSize stage)) stages)"
  using assms
proof (induction stages)
  case Nil
  show ?case by simp
next
  case (Cons stage stages)
  then have rest: "unat (sum_list (map (\<lambda>stage. ucast (perfDataBufferSize stage) :: uint64) stages)) =
      sum_list (map (\<lambda>stage. unat (perfDataBufferSize stage)) stages)"
    by simp
  have "unat (ucast (perfDataBufferSize stage) :: uint64)
          + unat (sum_list (map (\<lambda>stage. ucast (perfDataBufferSize stage) :: uint64) stages)) < 2 ^ 64"
    using Cons.prems by (simp add: rest unat_ucast_32_64)
  then show ?case
    by (simp add: unat_plus64 rest unat_ucast_32_64)
qed

lemma unat_max64:
  fixes a b :: uint64
  shows "unat (max a b) = max (unat a) (unat b)"
  by (simp add: max_def word_le_nat_alt)

lemma unat_register_bytes:
  fixes c h :: uint32
  assumes "8 * (unat c + unat h) < 2 ^ 32"
  shows "unat (c + h) = unat c + unat h"
    and "unat (ucast (8 * (c + h)) :: uint64) = 8 * (unat c + unat h)"
proof -
  from assms have "unat c + unat h < 2 ^ 32"
    by simp
  then show sum: "unat (c + h) = unat c + unat h"
    by (simp add: unat_add_lem [THEN iffD1])
  have "unat (8 :: uint32) * unat (c + h) < 2 ^ 32"
    using assms by (simp add: sum)
  then have "unat (8 * (c + h)) = unat (8 :: uint32) * unat (c + h)"
    by (intro unat_mult_lem [THEN iffD1]) simp
  then show "unat (ucast (8 * (c + h)) :: uint64) = 8 * (unat c + unat h)"
    by (simp add: unat_ucast_32_64 sum)
qed

lemma unat_Pow2Align_4:
  assumes "round_up (unat v) 4 < 2 ^ 64"
  shows "unat (Pow2Align v 4) = round_up (unat v) 4"
  using Pow2Align_round_up [of 2 v] assms by simp

lemma unat_minSafeSize:
  assumes line: "IsPowerOfTwo line"
    and fits: "spec_minSafeSize (unat codeLen) (unat line) (unat prefetch) < 2 ^ 64"
  shows "unat (Pow2Align codeLen line + ucast (prefetch :: uint32)) =
         spec_minSafeSize (unat codeLen) (unat line) (unat prefetch)"
proof -
  from line obtain k where k: "k < 64" "line = 2 ^ k" "unat line = 2 ^ k"
    by (rule IsPowerOfTwoE)
  from fits have sum: "round_up (unat codeLen) (2 ^ k) + unat prefetch < 2 ^ 64"
    by (simp only: spec_minSafeSize_def k(3))
  then have "round_up (unat codeLen) (2 ^ k) < 2 ^ 64"
    by simp
  then have rounded: "unat (Pow2Align codeLen (2 ^ k)) = round_up (unat codeLen) (2 ^ k)"
    using k(1) by (intro Pow2Align_round_up)
  have "unat (Pow2Align codeLen (2 ^ k) + ucast prefetch) =
        unat (Pow2Align codeLen (2 ^ k)) + unat (ucast prefetch :: uint64)"
    by (rule unat_plus64) (simp only: rounded unat_ucast_32_64 sum)
  then have eq: "unat (Pow2Align codeLen (2 ^ k) + ucast prefetch) =
        round_up (unat codeLen) (2 ^ k) + unat prefetch"
    by (simp only: rounded unat_ucast_32_64)
  show ?thesis
    apply (simp only: spec_minSafeSize_def k(3))
    apply (simp only: k(2))
    apply (rule eq)
    done
qed

lemma unat_unclamped_size:
  fixes c h :: uint32
  assumes regs: "8 * (unat c + unat h) < 2 ^ 32"
    and fits: "spec_unclamped_size (unat layoutSize) (unat c) (unat h)
                 (map (\<lambda>stage. unat (perfDataBufferSize stage)) stages) < 2 ^ 64"
  shows "unat ((if c + h > 0 then Pow2Align layoutSize 4 + ucast (8 * (c + h)) else layoutSize)
               + sum_list (map (\<lambda>stage. ucast (perfDataBufferSize stage)) stages)) =
         spec_unclamped_size (unat layoutSize) (unat c) (unat h)
           (map (\<lambda>stage. unat (perfDataBufferSize stage)) stages)"
proof -
  let ?perf = "sum_list (map (\<lambda>stage. unat (perfDataBufferSize stage)) stages)"
  have perf: "unat (sum_list (map (\<lambda>stage. ucast (perfDataBufferSize stage) :: uint64) stages)) = ?perf"
    using fits by (intro unat_perf_sum) (simp add: spec_unclamped_size_def comp_def)
  have pos: "c + h > 0 \<longleftrightarrow> unat c + unat h > 0"
    using unat_register_bytes(1) [OF regs] by (simp add: word_less_nat_alt)
  show ?thesis
  proof (cases "unat c + unat h > 0")
    case True
    then have wpos: "c + h > 0"
      by (simp only: pos)
    from True fits have total: "round_up (unat layoutSize) 4 + 8 * (unat c + unat h) + ?perf < 2 ^ 64"
      by (simp only: spec_unclamped_size_def if_True)
    then have A: "unat (Pow2Align layoutSize 4) = round_up (unat layoutSize) 4"
      by (intro unat_Pow2Align_4) simp
    note B = unat_register_bytes(2) [OF regs]
    have "unat (Pow2Align layoutSize 4 + ucast (8 * (c + h))) =
          unat (Pow2Align layoutSize 4) + unat (ucast (8 * (c + h)) :: uint64)"
    proof (rule unat_plus64)
      from total have "round_up (unat layoutSize) 4 + 8 * (unat c + unat h) < 2 ^ 64"
        by linarith
      then show "unat (Pow2Align layoutSize 4) + unat (ucast (8 * (c + h)) :: uint64) < 2 ^ 64"
        by (simp only: A B)
    qed
    then have AB: "unat (Pow2Align layoutSize 4 + ucast (8 * (c + h))) =
          round_up (unat layoutSize) 4 + 8 * (unat c + unat h)"
      by (simp only: A B)
    have "unat (Pow2Align layoutSize 4 + ucast (8 * (c + h))
                + sum_list (map (\<lambda>stage. ucast (perfDataBufferSize stage)) stages)) =
          unat (Pow2Align layoutSize 4 + ucast (8 * (c + h)))
          + unat (sum_list (map (\<lambda>stage. ucast (perfDataBufferSize stage) :: uint64) stages))"
      by (rule unat_plus64) (simp only: AB perf total)
    then show ?thesis
      by (simp only: wpos True if_True AB perf spec_unclamped_size_def)
  next
    case False
    then have wpos: "\<not> c + h > 0"
      by (simp add: pos)
    from False fits have total: "unat layoutSize + ?perf < 2 ^ 64"
      by (simp only: spec_unclamped_size_def if_False)
    have "unat (layoutSize
                + sum_list (map (\<lambda>stage. ucast (perfDataBufferSize stage)) stages)) =
          unat layoutSize
          + unat (sum_list (map (\<lambda>stage. ucast (perfDataBufferSize stage) :: uint64) stages))"
      by (rule unat_plus64) (simp only: perf total)
    then show ?thesis
      by (simp only: wpos False if_False perf spec_unclamped_size_def)
  qed
qed

text \<open>
  Claim C1, as amended. Let \<open>Begin\<close> succeed, let the cache line size be a power of
  two, and let the code length rounded up to the cache line plus the prefetch distance
  be below \<open>2^64\<close>. Then the mapping holds the writable and executable sections of
  the ELF in order; the memory manager has served the request of \<open>Begin\<close> for the
  recorded size, and the uploader holds the memory object and the offset it handed out;
  the size is at least \<open>round_up(codeLength, cacheLineSize) + prefetchDistance\<close>,
  whatever the register counts and the performance buffer sizes are; and if 8 bytes per
  register fit into 32 bits and the sum before clamping is below \<open>2^64\<close>, the size is
  \<open>spec_allocation_size\<close>: the layout size, rounded up to 4 bytes and increased by
  8 bytes per reserved register when any is reserved, plus the performance buffer sizes
  of all hardware stages, clamped up to that minimum.
\<close>

theorem Begin_allocation_size:
  assumes ok: "Begin ShaderICacheLineSize pDevice abiProcessor metadata preferNonLocalHeap
                 (up, pPerfDataInfoList, mapping0, mem) = (Success, up', infos', mapping', mem')"
    and line: "IsPowerOfTwo ShaderICacheLineSize"
    and fits: "spec_minSafeSize (unat (GetDataSize (GetTextSection abiProcessor)))
                 (unat ShaderICacheLineSize) (unat (shaderPrefetchBytes pDevice)) < 2 ^ 64"
  shows "(let allocated = AllocateGpuMem pDevice
                            (allocation_request preferNonLocalHeap (m_gpuMemSize up'))
                            \<lparr>alwaysResident = True\<rparr> False;
              layoutSize = unat (GetSize mapping');
              contextRegCount = unat (m_ctxRegisterCount up);
              shRegCount = unat (m_shRegisterCount up);
              perfSizes = map (\<lambda>stage. unat (perfDataBufferSize stage)) (hardwareStage metadata);
              codeLen = unat (GetDataSize (GetTextSection abiProcessor));
              cacheLineSize = unat ShaderICacheLineSize;
              prefetchDistance = unat (shaderPrefetchBytes pDevice)
          in mapping' = AddSections mapping0 (filter uploaded (GetSections abiProcessor))
             \<and> fst allocated = Success
             \<and> m_pGpuMemory up' = Some (fst (snd allocated))
             \<and> m_baseOffset up' = snd (snd allocated)
             \<and> spec_minSafeSize codeLen cacheLineSize prefetchDistance \<le> unat (m_gpuMemSize up')
             \<and> (8 * (contextRegCount + shRegCount) < 2 ^ 32
                  \<and> spec_unclamped_size layoutSize contextRegCount shRegCount perfSizes < 2 ^ 64
                \<longrightarrow> unat (m_gpuMemSize up') =
                      spec_allocation_size layoutSize contextRegCount shRegCount perfSizes
                        codeLen cacheLineSize prefetchDistance))"
proof -
  note facts = Begin_Success [OF ok]
  have request: "fst (AllocateGpuMem pDevice
                        (allocation_request preferNonLocalHeap (m_gpuMemSize up'))
                        \<lparr>alwaysResident = True\<rparr> False) = Success
      \<and> m_pGpuMemory up' = Some (fst (snd (AllocateGpuMem pDevice
                        (allocation_request preferNonLocalHeap (m_gpuMemSize up'))
                        \<lparr>alwaysResident = True\<rparr> False)))
      \<and> m_baseOffset up' = snd (snd (AllocateGpuMem pDevice
                        (allocation_request preferNonLocalHeap (m_gpuMemSize up'))
                        \<lparr>alwaysResident = True\<rparr> False))"
    using facts(3,4) by auto
  have size: "unat (m_gpuMemSize up') =
      max (unat ((if m_ctxRegisterCount up + m_shRegisterCount up > 0
                 then Pow2Align (GetSize mapping') 4
                        + ucast (8 * (m_ctxRegisterCount up + m_shRegisterCount up))
                 else GetSize mapping')
                + sum_list (map (\<lambda>stage. ucast (perfDataBufferSize stage)) (hardwareStage metadata))))
          (spec_minSafeSize (unat (GetDataSize (GetTextSection abiProcessor)))
                 (unat ShaderICacheLineSize) (unat (shaderPrefetchBytes pDevice)))"
    by (simp only: facts(2) unat_max64 unat_minSafeSize [OF line fits])
  then have lower: "spec_minSafeSize (unat (GetDataSize (GetTextSection abiProcessor)))
                 (unat ShaderICacheLineSize) (unat (shaderPrefetchBytes pDevice))
               \<le> unat (m_gpuMemSize up')"
    by simp
  have exact: "unat (m_gpuMemSize up') =
      spec_allocation_size (unat (GetSize mapping')) (unat (m_ctxRegisterCount up))
        (unat (m_shRegisterCount up))
        (map (\<lambda>stage. unat (perfDataBufferSize stage)) (hardwareStage metadata))
        (unat (GetDataSize (GetTextSection abiProcessor)))
        (unat ShaderICacheLineSize) (unat (shaderPrefetchBytes pDevice))"
    if "8 * (unat (m_ctxRegisterCount up) + unat (m_shRegisterCount up)) < 2 ^ 32"
      and "spec_unclamped_size (unat (GetSize mapping')) (unat (m_ctxRegisterCount up))
        (unat (m_shRegisterCount up))
        (map (\<lambda>stage. unat (perfDataBufferSize stage)) (hardwareStage metadata)) < 2 ^ 64"
    by (simp only: size unat_unclamped_size [OF that] spec_allocation_size_def)
  from facts(1) request lower exact show ?thesis
    by (simp only: Let_def) blast
qed

lemma IsPowerOfTwo_64: "IsPowerOfTwo 64"
  unfolding IsPowerOfTwo_def by (rule bexI [of _ 6]) simp_all

lemma ex_Begin_registers:
  "fst (Begin 64 (ex_device_exact 120 32) ex_abi (ex_metadata 16) False
          (PipelineUploader_ctor 2 3 0xCDCDCDCD 0xCDCDCDCD, [ex_perfDataInfo, ex_perfDataInfo],
           PipelineSectionSegmentMapping_ctor 0, (\<lambda>a. 0xFF))) = Success"
  by (simp add: ex_defs ex_device_exact_def allocation_request_def Begin_defs upt_2)

text \<open>
  Witness for C1: two context and three SH registers, a performance buffer of 16 bytes,
  a code section of 64 bytes, a cache line of 64 and a prefetch distance of 32 bytes.
  The memory manager serves the request for \<open>64 + 8 * 5 + 16 = 120\<close> bytes and no
  other; the minimum is \<open>64 + 32 = 96\<close>.
\<close>

theorem Begin_allocation_size_witness:
  "(case Begin 64 (ex_device_exact 120 32) ex_abi (ex_metadata 16) False
          (PipelineUploader_ctor 2 3 0xCDCDCDCD 0xCDCDCDCD, [ex_perfDataInfo, ex_perfDataInfo],
           PipelineSectionSegmentMapping_ctor 0, (\<lambda>a. 0xFF)) of
      (result, up', infos', mapping', mem') \<Rightarrow>
        result = Success \<and> GetSize mapping' = 64 \<and> m_gpuMemSize up' = 120 \<and>
        m_pGpuMemory up' = Some ex_gpuMem)
   \<and> spec_allocation_size 64 2 3 [0, 16] 64 64 32 = 120
   \<and> spec_minSafeSize 64 64 32 = 96"
proof -
  let ?up = "PipelineUploader_ctor 2 3 0xCDCDCDCD 0xCDCDCDCD"
  obtain r up' infos' mapping' mem' where
    b: "Begin 64 (ex_device_exact 120 32) ex_abi (ex_metadata 16) False
          (?up, [ex_perfDataInfo, ex_perfDataInfo],
           PipelineSectionSegmentMapping_ctor 0, (\<lambda>a. 0xFF)) = (r, up', infos', mapping', mem')"
    by (metis prod.exhaust)
  with ex_Begin_registers have r: "r = Success"
    by simp
  have computed: "spec_allocation_size 64 2 3 [0, 16] 64 64 32 = 120 \<and> spec_minSafeSize 64 64 32 = 96"
    by (simp add: spec_allocation_size_def spec_unclamped_size_def spec_minSafeSize_def round_up_def)
  have fits: "spec_minSafeSize (unat (GetDataSize (GetTextSection ex_abi))) (unat (64 :: uint64))
                (unat (shaderPrefetchBytes (ex_device_exact 120 32))) < 2 ^ 64"
    by (simp add: ex_abi_def ex_text_def ex_device_exact_def spec_minSafeSize_def round_up_def)
  note inst = Begin_allocation_size [OF b [unfolded r] IsPowerOfTwo_64 fits, unfolded Let_def]
  from inst have mapping: "mapping' =
      AddSections (PipelineSectionSegmentMapping_ctor 0) (filter uploaded (GetSections ex_abi))"
    by (rule conjunct1)
  then have layout: "GetSize mapping' = 64"
    by (simp add: ex_defs AddSections_def AddSection_def uploaded_def Pow2Align_def
        ShfWrite_def ShfExecInstr_def GetSize_def)
  have regs: "m_ctxRegisterCount ?up = 2 \<and> m_shRegisterCount ?up = 3"
    by (simp add: PipelineUploader_ctor_def)
  from inst have "8 * (unat (m_ctxRegisterCount ?up) + unat (m_shRegisterCount ?up)) < 2 ^ 32 \<and>
      spec_unclamped_size (unat (GetSize mapping')) (unat (m_ctxRegisterCount ?up))
         (unat (m_shRegisterCount ?up))
         (map (\<lambda>stage. unat (perfDataBufferSize stage)) (hardwareStage (ex_metadata 16))) < 2 ^ 64 \<longrightarrow>
      unat (m_gpuMemSize up') =
        spec_allocation_size (unat (GetSize mapping')) (unat (m_ctxRegisterCount ?up))
         (unat (m_shRegisterCount ?up))
         (map (\<lambda>stage. unat (perfDataBufferSize stage)) (hardwareStage (ex_metadata 16)))
         (unat (GetDataSize (GetTextSection ex_abi))) (unat (64 :: uint64))
         (unat (shaderPrefetchBytes (ex_device_exact 120 32)))"
    by (elim conjE)
  then have "unat (m_gpuMemSize up') = 120"
    by (simp add: layout regs ex_metadata_def ex_abi_def ex_text_def ex_device_exact_def
        spec_allocation_size_def spec_unclamped_size_def spec_minSafeSize_def round_up_def)
  then have size: "m_gpuMemSize up' = 120"
    by (simp add: word_unat_eq_iff)
  from inst have "fst (AllocateGpuMem (ex_device_exact 120 32)
                       (allocation_request False (m_gpuMemSize up')) \<lparr>alwaysResident = True\<rparr> False)
                  = Success \<and>
      m_pGpuMemory up' = Some (fst (snd (AllocateGpuMem (ex_device_exact 120 32)
                       (allocation_request False (m_gpuMemSize up')) \<lparr>alwaysResident = True\<rparr> False)))"
    by (elim conjE) (intro conjI)
  then have "m_pGpuMemory up' = Some ex_gpuMem"
    by (simp add: size ex_device_exact_def)
  with b r layout size computed show ?thesis
    by simp
qed

text \<open>
  Claim C1 as stated fails at two inputs. With \<open>2^28\<close> context and \<open>2^28\<close> SH
  registers the byte count of the register table, \<open>2^32\<close>, is 0 in 32 bits: \<open>Begin\<close>
  allocates 320 bytes, where the claim asks for \<open>64 + 2^32\<close>. With a cache line of
  3 bytes \<open>Pow2Align\<close> leaves the code length 64 as it is: \<open>Begin\<close> allocates
  \<open>64 + 256 = 320\<close> bytes, below the minimum \<open>66 + 256 = 322\<close> of the claim.
\<close>

theorem Begin_allocation_size_counterexample:
  "(case Begin 64 ex_device ex_abi (ex_metadata 0) False
          (PipelineUploader_ctor 0x10000000 0x10000000 0 0, [ex_perfDataInfo, ex_perfDataInfo],
           PipelineSectionSegmentMapping_ctor 0, (\<lambda>a. 0xFF)) of
      (result, up', infos', mapping', mem') \<Rightarrow>
        result = Success \<and> GetSize mapping' = 64 \<and> m_gpuMemSize up' = 320)
   \<and> spec_allocation_size 64 0x10000000 0x10000000 [0, 0] 64 64 256 = 4294967360
   \<and> (case Begin 3 ex_device ex_abi (ex_metadata 0) False
          (PipelineUploader_ctor 0 0 0 0, [ex_perfDataInfo, ex_perfDataInfo],
           PipelineSectionSegmentMapping_ctor 0, (\<lambda>a. 0xFF)) of
      (result, up', infos', mapping', mem') \<Rightarrow>
        result = Success \<and> GetSize mapping' = 64 \<and> m_gpuMemSize up' = 320)
   \<and> spec_minSafeSize 64 3 256 = 322"
  by (simp add: ex_defs Begin_defs upt_2 spec_allocation_size_def spec_unclamped_size_def
      spec_minSafeSize_def round_up_def)

section \<open>The performance buffers of the uploader (claim C3)\<close>

text \<open>
  Claim C3 at a concrete input: the code section of 64 bytes, no registers, and a
  performance buffer of 16 bytes for stage 1. \<open>Begin\<close> succeeds, the buffer of
  stage 1 is at CPU offset 64 and its 16 bytes in the mapped allocation are zero. The GPU
  address recorded for it is \<open>0x1080\<close>: the base address \<open>0x1000\<close>, plus the
  size 64 of the section layout, plus the CPU offset 64, which already counts the
  section layout. The claim's address, base plus CPU offset, is \<open>0x1040\<close>.
\<close>

theorem Begin_perf_gpuVirtAddr_off_by_layout_size:
  "(case Begin 64 ex_device ex_abi (ex_metadata 16) False ex_upload_state of
      (result, up', infos', mapping', mem') \<Rightarrow>
        result = Success \<and>
        m_pMappedPtr up' = Some 0x7000 \<and>
        GetSize mapping' = 64 \<and>
        sizeInBytes (infos' ! 1) = 16 \<and>
        cpuOffset (infos' ! 1) = 64 \<and>
        set (read_bytes mem' (0x7000 + 64) 16) = {0} \<and>
        gpuVirtAddr (infos' ! 1) = 0x1080 \<and>
        LowPart (Desc_gpuVirtAddr ex_gpuMem + 0 + cpuOffset (infos' ! 1)) = 0x1040)"
  by (simp add: ex_defs Begin_defs upt_2 read_bytes_def memset_def memcpy_def upt_rec)

section \<open>Reading back shader code (claim C4)\<close>


lemma copy_to_buffer_exact:
  assumes "length buffer = n" "n \<le> length src"
  shows "copy_to_buffer buffer src n = Inr (take n src)"
  using assms by (simp add: copy_to_buffer_def)

text \<open>
  Claim C4, as amended. Let a pipeline have recorded shader code for a stage
  (\<open>GetShaderStageInfo\<close> hands out its stage info), and let the caller's buffer have
  as many bytes as the recorded code length. \<open>GetShaderCode\<close> with a null buffer
  succeeds and stores the code length. If the retained ELF loads, and the stage's entry
  symbol has the recorded code length as its size and lies inside the code section (what
  \<open>GetShaderCode\<close> asserts), a second call with the buffer and exactly that size
  succeeds and fills the buffer with the bytes of the code section at the symbol's value,
  as many as the symbol's size. If the retained ELF does not load, the second call hands
  back the error of the parser and leaves the buffer as it is. No call changes the
  pipeline.
\<close>

theorem GetShaderCode_round_trip:
  assumes info: "GetShaderStageInfo p shaderType = Some pInfo"
    and load: "LoadFromBuffer (m_pPipelineBinary p) (m_pipelineBinaryLen p) = (result, abiProcessor)"
    and symbol: "GetPipelineSymbolEntry abiProcessor
                   (GetSymbolForStage ShaderMainEntry (stageId pInfo)) = symbol"
    and buffer: "length buffer = unat (codeLength pInfo)"
  shows "GetShaderCode LoadFromBuffer p shaderType (Some n) None =
           Inr (Success, Some (codeLength pInfo), None, p)
         \<and> (result = Success \<and> sym_size symbol = codeLength pInfo
              \<and> unat (sym_value symbol) + unat (sym_size symbol)
                   \<le> length (GetPipelineCode_pCode abiProcessor)
            \<longrightarrow> GetShaderCode LoadFromBuffer p shaderType (Some (codeLength pInfo)) (Some buffer) =
                  Inr (Success, Some (codeLength pInfo),
                       Some (take (unat (sym_size symbol))
                               (drop (unat (sym_value symbol)) (GetPipelineCode_pCode abiProcessor))),
                       p))
         \<and> (result \<noteq> Success
            \<longrightarrow> GetShaderCode LoadFromBuffer p shaderType (Some (codeLength pInfo)) (Some buffer) =
                  Inr (result, Some (codeLength pInfo), Some buffer, p))"
proof (intro conjI impI)
  show "GetShaderCode LoadFromBuffer p shaderType (Some n) None =
           Inr (Success, Some (codeLength pInfo), None, p)"
    by (simp add: GetShaderCode_def info)
next
  assume ok: "result = Success \<and> sym_size symbol = codeLength pInfo
              \<and> unat (sym_value symbol) + unat (sym_size symbol)
                   \<le> length (GetPipelineCode_pCode abiProcessor)"
  then have "copy_to_buffer buffer
               (drop (unat (sym_value symbol)) (GetPipelineCode_pCode abiProcessor))
               (unat (sym_size symbol)) =
             Inr (take (unat (sym_size symbol))
                    (drop (unat (sym_value symbol)) (GetPipelineCode_pCode abiProcessor)))"
    using buffer by (intro copy_to_buffer_exact) auto
  with ok show "GetShaderCode LoadFromBuffer p shaderType (Some (codeLength pInfo)) (Some buffer) =
                  Inr (Success, Some (codeLength pInfo),
                       Some (take (unat (sym_size symbol))
                               (drop (unat (sym_value symbol)) (GetPipelineCode_pCode abiProcessor))),
                       p)"
    by (simp add: GetShaderCode_def info load symbol Let_def)
next
  assume "result \<noteq> Success"
  then show "GetShaderCode LoadFromBuffer p shaderType (Some (codeLength pInfo)) (Some buffer) =
                  Inr (result, Some (codeLength pInfo), Some buffer, p)"
    by (simp add: GetShaderCode_def info load)
qed

lemma ex_symbol:
  "GetPipelineSymbolEntry ex_abi (GetSymbolForStage ShaderMainEntry 1) =
     \<lparr>sym_sectionType = AbiSection_Code, sym_value = 0, sym_size = 64\<rparr>"
  by (simp add: GetPipelineSymbolEntry_def GetSymbolForStage_def ex_abi_def)

text \<open>
  Witness for C4: the pipeline with the code section of 64 bytes \<open>0xBF\<close>, with the
  parser that loads it and with the parser that fails.
\<close>

theorem GetShaderCode_round_trip_witness:
  "GetShaderCode ex_LoadFromBuffer ex_pipeline Compute (Some 0) None =
     Inr (Success, Some 64, None, ex_pipeline) \<and>
   GetShaderCode ex_LoadFromBuffer ex_pipeline Compute (Some 64) (Some (replicate 64 0)) =
     Inr (Success, Some 64, Some (replicate 64 0xBF), ex_pipeline) \<and>
   GetShaderCode ex_LoadFromBuffer_failing ex_pipeline Compute (Some 64) (Some (replicate 64 0)) =
     Inr (ErrorOther 1, Some 64, Some (replicate 64 0), ex_pipeline)"
proof -
  let ?info = "\<lparr>stageId = 1, codeLength = 64, disassemblyLength = 0\<rparr>"
  let ?symbol = "\<lparr>sym_sectionType = AbiSection_Code, sym_value = 0, sym_size = 64\<rparr>"
  have 1: "GetShaderStageInfo ex_pipeline Compute = Some ?info"
    by (simp add: ex_pipeline_def)
  have 2: "ex_LoadFromBuffer (m_pPipelineBinary ex_pipeline) (m_pipelineBinaryLen ex_pipeline) =
             (Success, ex_abi)"
    by (simp add: ex_LoadFromBuffer_def)
  have 7: "ex_LoadFromBuffer_failing (m_pPipelineBinary ex_pipeline) (m_pipelineBinaryLen ex_pipeline) =
             (ErrorOther 1, ex_abi)"
    by (simp add: ex_LoadFromBuffer_failing_def)
  have 3: "GetPipelineSymbolEntry ex_abi (GetSymbolForStage ShaderMainEntry (stageId ?info)) = ?symbol"
    using ex_symbol by simp
  have 4: "length (replicate 64 (0 :: uint8)) = unat (codeLength ?info)"
    by simp
  have 5: "Success = Success \<and> sym_size ?symbol = codeLength ?info \<and>
           unat (sym_value ?symbol) + unat (sym_size ?symbol) \<le> length (GetPipelineCode_pCode ex_abi)"
    by (simp add: ex_abi_def)
  have 6: "ErrorOther 1 \<noteq> Success"
    by simp
  note good = GetShaderCode_round_trip [where p = ex_pipeline and LoadFromBuffer = ex_LoadFromBuffer
      and buffer = "replicate 64 0" and n = 0, OF 1 2 3 4]
  note bad = GetShaderCode_round_trip [where p = ex_pipeline
      and LoadFromBuffer = ex_LoadFromBuffer_failing
      and buffer = "replicate 64 0" and n = 0, OF 1 7 3 4]
  from good [THEN conjunct1] good [THEN conjunct2, THEN conjunct1, THEN mp, OF 5]
    bad [THEN conjunct2, THEN conjunct2, THEN mp, OF 6]
  show ?thesis
    by (simp add: ex_abi_def)
qed

text \<open>
  Claim C4 as stated fails at three inputs, on the pipeline that has code of 64 bytes
  recorded for the compute shader. With a parser that fails the probe succeeds, and the
  second call hands back the parser's error and an untouched buffer. With an entry
  symbol of 32 bytes the second call succeeds and fills half of the buffer. With an
  entry symbol of 64 bytes at the value 32 of the code section of 64 bytes the copy
  reads beyond the code section.
\<close>

theorem GetShaderCode_round_trip_counterexample:
  "GetShaderStageInfo ex_pipeline Compute = Some \<lparr>stageId = 1, codeLength = 64, disassemblyLength = 0\<rparr>
   \<and> GetShaderCode ex_LoadFromBuffer_failing ex_pipeline Compute (Some 0) None =
       Inr (Success, Some 64, None, ex_pipeline)
   \<and> GetShaderCode ex_LoadFromBuffer_failing ex_pipeline Compute (Some 64) (Some (replicate 64 0)) =
       Inr (ErrorOther 1, Some 64, Some (replicate 64 0), ex_pipeline)
   \<and> GetShaderCode (ex_LoadFromBuffer_symbol 0 32) ex_pipeline Compute (Some 64) (Some (replicate 64 0)) =
       Inr (Success, Some 64, Some (replicate 32 0xBF @ replicate 32 0), ex_pipeline)
   \<and> GetShaderCode (ex_LoadFromBuffer_symbol 32 64) ex_pipeline Compute (Some 64) (Some (replicate 64 0)) =
       Inl (OutOfBoundsRead 64 32)"
  by (simp add: GetShaderCode_def ex_pipeline_def ex_LoadFromBuffer_failing_def
      ex_LoadFromBuffer_symbol_def ex_abi_def GetPipelineSymbolEntry_def GetSymbolForStage_def
      copy_to_buffer_def)

section \<open>The introspection queries (claim C9)\<close>











section \<open>The register signature extractor (claims C5 and C10)\<close>

text \<open>
  With contiguous user-data registers the loop returns, and it is the loop body
  applied to the sixteen register offsets in order.
\<close>

lemma SetupSignature_loop_unroll:
  assumes "unat offset + n = unat (mmCOMPUTE_USER_DATA_15 c) + 1"
    and "unat (mmCOMPUTE_USER_DATA_15 c) < 65535"
  shows "SetupSignature_loop c registers offset st =
           Some (SetupSignature_steps c registers (map (\<lambda>i. offset + of_nat i) [0..<n]) st)"
  using assms
proof (induction n arbitrary: offset st)
  case 0
  then have "\<not> offset \<le> mmCOMPUTE_USER_DATA_15 c"
    by (simp add: word_le_nat_alt)
  then show ?case
    by (simp add: SetupSignature_loop.simps)
next
  case (Suc n)
  from Suc.prems have le: "offset \<le> mmCOMPUTE_USER_DATA_15 c"
    by (simp add: word_le_nat_alt)
  have "unat offset + 1 < 2 ^ 16"
    using Suc.prems by simp
  then have next_offset: "unat (offset + 1) = unat offset + 1"
    by (simp add: unat_add_lem [THEN iffD1])
  have list: "map (\<lambda>i. offset + of_nat i) [0..<Suc n] =
      offset # map (\<lambda>i. (offset + 1) + of_nat i) [0..<n]"
    by (simp add: map_upt_Suc add.assoc del: upt_Suc)
  show ?case
  proof (cases "SetupSignature_step c registers offset st")
    case (Inl fault)
    then show ?thesis
      using le by (subst SetupSignature_loop.simps) (simp add: list del: upt_Suc)
  next
    case (Inr st')
    have "SetupSignature_loop c registers (offset + 1) st' =
        Some (SetupSignature_steps c registers (map (\<lambda>i. (offset + 1) + of_nat i) [0..<n]) st')"
      using Suc.prems next_offset by (intro Suc.IH) simp_all
    then show ?thesis
      using le Inr by (subst SetupSignature_loop.simps) (simp add: list del: upt_Suc)
  qed
qed

lemma SetupSignature_loop_steps:
  assumes "user_data_regs_contiguous c"
  shows "SetupSignature_loop c registers (mmCOMPUTE_USER_DATA_0 c) st =
           Some (SetupSignature_steps c registers (user_data_regs c) st)"
proof -
  from assms have hi: "mmCOMPUTE_USER_DATA_15 c = mmCOMPUTE_USER_DATA_0 c + 15"
    and room: "unat (mmCOMPUTE_USER_DATA_0 c) + 15 < 65535"
    by (simp_all add: user_data_regs_contiguous_def)
  from room have "unat (mmCOMPUTE_USER_DATA_0 c + 15) = unat (mmCOMPUTE_USER_DATA_0 c) + 15"
    by (simp add: unat_add_lem [THEN iffD1])
  then show ?thesis
    unfolding user_data_regs_def using room
    by (intro SetupSignature_loop_unroll) (simp_all add: hi)
qed


lemma user_data_regs_iff:
  "offset \<in> set (user_data_regs c) \<longleftrightarrow> (\<exists>i < 16. offset = mmCOMPUTE_USER_DATA_0 c + of_nat i)"
  by (auto simp add: user_data_regs_def)

lemma unat_user_data_reg:
  assumes "user_data_regs_contiguous c" "i < 16"
  shows "unat (mmCOMPUTE_USER_DATA_0 c + of_nat i) = unat (mmCOMPUTE_USER_DATA_0 c) + i"
proof -
  from assms have "unat (mmCOMPUTE_USER_DATA_0 c) + i < 2 ^ 16"
    by (simp add: user_data_regs_contiguous_def)
  moreover have "unat (of_nat i :: uint16) = i"
    using assms(2) by (simp add: unat_of_nat)
  ultimately show ?thesis
    by (simp add: unat_add_lem [THEN iffD1])
qed

lemma unat_first_user_sgpr:
  assumes "user_data_regs_contiguous c"
  shows "unat (first_user_sgpr c) = unat (mmCOMPUTE_USER_DATA_0 c) + unat (FastUserDataStartReg c)"
proof -
  from assms have "unat (mmCOMPUTE_USER_DATA_0 c) + unat (FastUserDataStartReg c) < 2 ^ 16"
    by (simp add: user_data_regs_contiguous_def)
  then show ?thesis
    by (simp add: first_user_sgpr_def unat_add_lem [THEN iffD1])
qed

lemma distinct_user_data_regs:
  assumes "user_data_regs_contiguous c"
  shows "distinct (user_data_regs c)"
proof -
  have "inj_on (\<lambda>i. mmCOMPUTE_USER_DATA_0 c + of_nat i) {0..<16}"
  proof (rule inj_onI)
    fix i j :: nat
    assume "i \<in> {0..<16}" "j \<in> {0..<16}"
      and eq: "mmCOMPUTE_USER_DATA_0 c + of_nat i = mmCOMPUTE_USER_DATA_0 c + of_nat j"
    from eq have "unat (mmCOMPUTE_USER_DATA_0 c + of_nat i) = unat (mmCOMPUTE_USER_DATA_0 c + of_nat j)"
      by (rule arg_cong)
    with \<open>i \<in> {0..<16}\<close> \<open>j \<in> {0..<16}\<close>
    have "unat (mmCOMPUTE_USER_DATA_0 c) + i = unat (mmCOMPUTE_USER_DATA_0 c) + j"
      by (simp add: unat_user_data_reg [OF assms])
    then show "i = j"
      by simp
  qed
  then show ?thesis
    by (simp add: user_data_regs_def distinct_map)
qed

lemma slot_of_eq:
  assumes c: "user_data_regs_contiguous c"
    and range: "offset \<in> set (user_data_regs c)"
    and first: "first_user_sgpr c \<le> offset"
  shows "slot_of c offset = unat offset - unat (first_user_sgpr c)" and "slot_of c offset < 16"
proof -
  from range obtain i where i: "i < 16" "offset = mmCOMPUTE_USER_DATA_0 c + of_nat i"
    by (auto simp add: user_data_regs_iff)
  have o: "unat offset = unat (mmCOMPUTE_USER_DATA_0 c) + i"
    using unat_user_data_reg [OF c i(1)] i(2) by simp
  have d: "unat (offset - first_user_sgpr c) = unat offset - unat (first_user_sgpr c)"
    using first by (simp add: unat_sub)
  also have "\<dots> < 16"
    using o i(1) unat_first_user_sgpr [OF c] by simp
  finally have small: "unat (offset - first_user_sgpr c) < 16" .
  have "slot_of c offset = unat (offset - first_user_sgpr c)"
    using small by (simp add: slot_of_def unsigned_ucast_eq take_bit_nat_eq_self_iff)
  then show "slot_of c offset = unat offset - unat (first_user_sgpr c)" and "slot_of c offset < 16"
    using d small by simp_all
qed


lemma slot_of_inj:
  assumes c: "user_data_regs_contiguous c"
    and "offset \<in> set (user_data_regs c)" "first_user_sgpr c \<le> offset"
    and "offset' \<in> set (user_data_regs c)" "first_user_sgpr c \<le> offset'"
    and eq: "slot_of c offset = slot_of c offset'"
  shows "offset = offset'"
proof -
  have "unat offset - unat (first_user_sgpr c) = unat offset' - unat (first_user_sgpr c)"
    using assms by (simp add: slot_of_eq(1))
  moreover have "unat (first_user_sgpr c) \<le> unat offset" "unat (first_user_sgpr c) \<le> unat offset'"
    using assms(3,5) by (simp_all add: word_le_nat_alt)
  ultimately have "unat offset = unat offset'"
    by simp
  then show ?thesis
    by (simp add: word_unat_eq_iff)
qed

lemma step_unmapped:
  assumes "\<not> maps_ordinal c registers offset"
  shows "\<exists>st'. SetupSignature_step c registers offset st = Inr st' \<and>
     entryToRegAddr st' = entryToRegAddr st \<and>
     mappedEntry (stage (m_signature st')) = mappedEntry (stage (m_signature st)) \<and>
     userSgprCount (stage (m_signature st')) = userSgprCount (stage (m_signature st)) \<and>
     firstUserSgprRegAddr (stage (m_signature st')) = firstUserSgprRegAddr (stage (m_signature st))"
  using assms
  by (cases "registers (ucast offset)")
     (simp_all add: SetupSignature_step_def maps_ordinal_def Let_def)

lemma step_mapped:
  assumes wf: "wf_state c st"
    and v: "registers (ucast offset) = Some v" "v < MaxUserDataEntries c"
    and slot: "slot_of c offset < 16"
  shows "SetupSignature_step c registers offset st =
     Inr (st\<lparr>entryToRegAddr := (entryToRegAddr st)[unat v := offset],
             m_signature := (m_signature st)\<lparr>stage := (stage (m_signature st))
               \<lparr>mappedEntry := (mappedEntry (stage (m_signature st)))[slot_of c offset := ucast v],
                userSgprCount := max (of_nat (slot_of c offset) + 1)
                                     (userSgprCount (stage (m_signature st)))\<rparr>\<rparr>\<rparr>)"
proof -
  have "unat v < length (entryToRegAddr st)"
    using wf v(2) by (simp add: wf_state_def word_less_nat_alt)
  moreover have "unat (ucast (offset - first_user_sgpr c) :: uint8) < length (mappedEntry (stage (m_signature st)))"
    using wf slot by (simp add: wf_state_def slot_of_def NumMappedEntries_def)
  moreover have "firstUserSgprRegAddr (stage (m_signature st)) = first_user_sgpr c"
    using wf by (simp add: wf_state_def)
  ultimately show ?thesis
    using v by (simp add: SetupSignature_step_def Let_def array_write_def slot_of_def)
qed

lemma steps_append:
  "SetupSignature_steps c registers (xs @ ys) st =
     (case SetupSignature_steps c registers xs st of
        Inl fault \<Rightarrow> Inl fault
      | Inr st' \<Rightarrow> SetupSignature_steps c registers ys st')"
  by (induction xs arbitrary: st) (auto split: sum.splits)


lemma unat_slot_count:
  assumes "n < 16"
  shows "unat (max (of_nat n + 1) (k :: uint8)) = max (n + 1) (unat k)"
proof -
  have "unat (of_nat n + 1 :: uint8) = n + 1"
    using assms by (simp add: unat_add_lem [THEN iffD1] unat_of_nat)
  then show ?thesis
    by (simp add: max_def word_le_nat_alt)
qed

lemma steps_invariant:
  assumes c: "user_data_regs_contiguous c"
    and wf: "wf_state c st"
    and sub: "set os \<subseteq> set (user_data_regs c)"
    and dist: "distinct os"
    and ge: "\<forall>offset \<in> set os. maps_ordinal c registers offset \<longrightarrow> first_user_sgpr c \<le> offset"
  shows "\<exists>st'. SetupSignature_steps c registers os st = Inr st' \<and> wf_state c st' \<and>
     (\<forall>offset \<in> set os. \<forall>v. registers (ucast offset) = Some v \<and> v < MaxUserDataEntries c \<longrightarrow>
          mappedEntry (stage (m_signature st')) ! slot_of c offset = ucast v) \<and>
     (\<forall>v. v < MaxUserDataEntries c \<and> (\<exists>offset \<in> set os. registers (ucast offset) = Some v) \<longrightarrow>
          (\<exists>offset \<in> set os. registers (ucast offset) = Some v \<and>
                               entryToRegAddr st' ! unat v = offset)) \<and>
     unat (userSgprCount (stage (m_signature st'))) =
        Max (insert (unat (userSgprCount (stage (m_signature st))))
               ((\<lambda>offset. slot_of c offset + 1) ` {offset \<in> set os. maps_ordinal c registers offset}))"
  using sub dist ge
proof (induction os rule: rev_induct)
  case Nil
  then show ?case
    using wf by simp
next
  case (snoc x os)
  let ?mapped = "\<lambda>os. {offset \<in> set os. maps_ordinal c registers offset}"
  let ?f = "\<lambda>offset. slot_of c offset + 1"
  let ?k = "unat (userSgprCount (stage (m_signature st)))"
  from snoc obtain st1 where
    run: "SetupSignature_steps c registers os st = Inr st1"
    and wf1: "wf_state c st1"
    and me1: "\<forall>offset \<in> set os. \<forall>v. registers (ucast offset) = Some v \<and> v < MaxUserDataEntries c \<longrightarrow>
          mappedEntry (stage (m_signature st1)) ! slot_of c offset = ucast v"
    and er1: "\<forall>v. v < MaxUserDataEntries c \<and> (\<exists>offset \<in> set os. registers (ucast offset) = Some v) \<longrightarrow>
          (\<exists>offset \<in> set os. registers (ucast offset) = Some v \<and>
                               entryToRegAddr st1 ! unat v = offset)"
    and cnt1: "unat (userSgprCount (stage (m_signature st1))) = Max (insert ?k (?f ` ?mapped os))"
    by auto
  have x_range: "x \<in> set (user_data_regs c)" and x_new: "x \<notin> set os"
    using snoc.prems by simp_all
  show ?case
  proof (cases "maps_ordinal c registers x")
    case False
    from step_unmapped [OF False, of st1] obtain st2 where
      step: "SetupSignature_step c registers x st1 = Inr st2"
      and same: "entryToRegAddr st2 = entryToRegAddr st1"
        "mappedEntry (stage (m_signature st2)) = mappedEntry (stage (m_signature st1))"
        "userSgprCount (stage (m_signature st2)) = userSgprCount (stage (m_signature st1))"
        "firstUserSgprRegAddr (stage (m_signature st2)) = firstUserSgprRegAddr (stage (m_signature st1))"
      by blast
    have not_x: "\<not> (registers (ucast x) = Some v \<and> v < MaxUserDataEntries c)" for v
      using False by (auto simp add: maps_ordinal_def)
    have "SetupSignature_steps c registers (os @ [x]) st = Inr st2"
      by (simp add: steps_append run step)
    moreover have "wf_state c st2"
      using wf1 same by (simp add: wf_state_def)
    moreover have "\<forall>offset \<in> set (os @ [x]). \<forall>v. registers (ucast offset) = Some v \<and> v < MaxUserDataEntries c \<longrightarrow>
          mappedEntry (stage (m_signature st2)) ! slot_of c offset = ucast v"
      using me1 not_x by (auto simp add: same)
    moreover have "\<forall>v. v < MaxUserDataEntries c \<and> (\<exists>offset \<in> set (os @ [x]). registers (ucast offset) = Some v) \<longrightarrow>
          (\<exists>offset \<in> set (os @ [x]). registers (ucast offset) = Some v \<and>
                               entryToRegAddr st2 ! unat v = offset)"
    proof (intro allI impI)
      fix v
      assume v: "v < MaxUserDataEntries c \<and> (\<exists>offset \<in> set (os @ [x]). registers (ucast offset) = Some v)"
      with not_x have "\<exists>offset \<in> set os. registers (ucast offset) = Some v"
        by auto
      with v er1 obtain offset where "offset \<in> set os" "registers (ucast offset) = Some v"
        "entryToRegAddr st1 ! unat v = offset"
        by blast
      then show "\<exists>offset \<in> set (os @ [x]). registers (ucast offset) = Some v \<and>
                               entryToRegAddr st2 ! unat v = offset"
        by (auto simp add: same)
    qed
    moreover have "?mapped (os @ [x]) = ?mapped os"
      using False by auto
    then have "unat (userSgprCount (stage (m_signature st2))) = Max (insert ?k (?f ` ?mapped (os @ [x])))"
      using cnt1 by (simp only: same)
    ultimately show ?thesis
      by blast
  next
    case True
    then obtain v where v: "registers (ucast x) = Some v" "v < MaxUserDataEntries c"
      by (auto simp add: maps_ordinal_def split: option.splits)
    have x_first: "first_user_sgpr c \<le> x"
      using snoc.prems(3) True by simp
    have slot: "slot_of c x < 16"
      using c x_range x_first by (rule slot_of_eq(2))
    define st2 where "st2 = st1\<lparr>entryToRegAddr := (entryToRegAddr st1)[unat v := x],
             m_signature := (m_signature st1)\<lparr>stage := (stage (m_signature st1))
               \<lparr>mappedEntry := (mappedEntry (stage (m_signature st1)))[slot_of c x := ucast v],
                userSgprCount := max (of_nat (slot_of c x) + 1)
                                     (userSgprCount (stage (m_signature st1)))\<rparr>\<rparr>\<rparr>"
    have step: "SetupSignature_step c registers x st1 = Inr st2"
      unfolding st2_def using wf1 v slot by (rule step_mapped)
    have len: "slot_of c x < length (mappedEntry (stage (m_signature st1)))"
      "unat v < length (entryToRegAddr st1)"
      using wf1 slot v(2) by (simp_all add: wf_state_def NumMappedEntries_def word_less_nat_alt)
    have "SetupSignature_steps c registers (os @ [x]) st = Inr st2"
      by (simp add: steps_append run step)
    moreover have "wf_state c st2"
      using wf1 by (simp add: wf_state_def st2_def)
    moreover have "\<forall>offset \<in> set (os @ [x]). \<forall>w. registers (ucast offset) = Some w \<and> w < MaxUserDataEntries c \<longrightarrow>
          mappedEntry (stage (m_signature st2)) ! slot_of c offset = ucast w"
    proof (intro ballI allI impI)
      fix offset w
      assume offset: "offset \<in> set (os @ [x])"
        and w: "registers (ucast offset) = Some w \<and> w < MaxUserDataEntries c"
      show "mappedEntry (stage (m_signature st2)) ! slot_of c offset = ucast w"
      proof (cases "offset = x")
        case True
        with w v have "w = v"
          by simp
        then show ?thesis
          using len True by (simp add: st2_def)
      next
        case False
        with offset have old: "offset \<in> set os"
          by simp
        then have "maps_ordinal c registers offset"
          using w by (simp add: maps_ordinal_def)
        with old snoc.prems have "offset \<in> set (user_data_regs c)" "first_user_sgpr c \<le> offset"
          by auto
        with c x_range x_first False have "slot_of c offset \<noteq> slot_of c x"
          using slot_of_inj by blast
        then show ?thesis
          using me1 old w by (simp add: st2_def)
      qed
    qed
    moreover have "\<forall>w. w < MaxUserDataEntries c \<and> (\<exists>offset \<in> set (os @ [x]). registers (ucast offset) = Some w) \<longrightarrow>
          (\<exists>offset \<in> set (os @ [x]). registers (ucast offset) = Some w \<and>
                               entryToRegAddr st2 ! unat w = offset)"
    proof (intro allI impI)
      fix w
      assume w: "w < MaxUserDataEntries c \<and> (\<exists>offset \<in> set (os @ [x]). registers (ucast offset) = Some w)"
      show "\<exists>offset \<in> set (os @ [x]). registers (ucast offset) = Some w \<and>
                               entryToRegAddr st2 ! unat w = offset"
      proof (cases "w = v")
        case True
        then show ?thesis
          using v len by (auto simp add: st2_def)
      next
        case False
        then have "unat w \<noteq> unat v"
          by (simp add: word_unat_eq_iff)
        moreover from w False v have "\<exists>offset \<in> set os. registers (ucast offset) = Some w"
          by auto
        with w er1 obtain offset where "offset \<in> set os" "registers (ucast offset) = Some w"
          "entryToRegAddr st1 ! unat w = offset"
          by blast
        ultimately show ?thesis
          by (auto simp add: st2_def)
      qed
    qed
    moreover have "unat (userSgprCount (stage (m_signature st2))) = Max (insert ?k (?f ` ?mapped (os @ [x])))"
    proof -
      have "?mapped (os @ [x]) = insert x (?mapped os)"
        using True by auto
      then have "Max (insert ?k (?f ` ?mapped (os @ [x]))) =
          Max (insert (?f x) (insert ?k (?f ` ?mapped os)))"
        by (simp add: insert_commute)
      also have "\<dots> = max (?f x) (Max (insert ?k (?f ` ?mapped os)))"
        by (rule Max_insert) simp_all
      finally show ?thesis
        using cnt1 slot by (simp add: st2_def unat_slot_count)
    qed
    ultimately show ?thesis
      by blast
  qed
qed


lemma SetupSignatureFromElf_steps:
  assumes "user_data_regs_contiguous c"
  shows "SetupSignatureFromElf c metadata registers (NullCsSignature c) perfDataInfo_Cs =
     (case SetupSignature_steps c registers (user_data_regs c) (signature_start c perfDataInfo_Cs) of
        Inl fault \<Rightarrow> Some (Inl fault)
      | Inr st \<Rightarrow> Some (Inr (signature_finish metadata st)))"
  by (simp add: SetupSignatureFromElf_def SetupSignature_loop_steps [OF assms] Let_def
      signature_start_def signature_finish_def first_user_sgpr_def split: sum.splits)

lemma wf_signature_start: "wf_state c (signature_start c perfDataInfo_Cs)"
  by (simp add: wf_state_def signature_start_def NullCsSignature_def)

lemma signature_finish_stage [simp]:
  "stage (m_signature (signature_finish metadata st)) = stage (m_signature st)"
  "entryToRegAddr (signature_finish metadata st) = entryToRegAddr st"
  by (simp_all add: signature_finish_def Let_def)

lemma step_no_effect:
  assumes "\<not> maps_ordinal c registers offset" "\<not> maps_sentinel c registers offset"
  shows "SetupSignature_step c registers offset st = Inr st"
  using assms
  by (cases "registers (ucast offset)")
     (simp_all add: SetupSignature_step_def maps_ordinal_def maps_sentinel_def Let_def)

lemma steps_no_effect:
  assumes "\<forall>offset \<in> set os. \<not> maps_ordinal c registers offset \<and> \<not> maps_sentinel c registers offset"
  shows "SetupSignature_steps c registers os st = Inr st"
  using assms by (induction os) (simp_all add: step_no_effect)

text \<open>
  Claim C10. Let the user-data registers be contiguous. For every register-value list in
  which every user-data ordinal (a value below \<open>MaxUserDataEntries\<close>) stands at a
  register offset at or after the first user-data SGPR address,
  \<open>SetupSignatureFromElf\<close> on a freshly constructed pipeline returns without a fault,
  that is, all its array writes are in bounds: \<open>entryToRegAddr\<close>, of
  \<open>MaxUserDataEntries\<close> entries, is indexed by values below
  \<open>MaxUserDataEntries\<close>, and \<open>mappedEntry\<close>, of 16 entries, by
  \<open>offset - firstUserSgprRegAddr\<close>, which is below 16. The resulting
  \<open>userSgprCount\<close> is at most 16.
\<close>

theorem signature_extraction_in_bounds:
  assumes c: "user_data_regs_contiguous c"
    and ge: "\<forall>offset \<in> set (user_data_regs c).
               maps_ordinal c registers offset \<longrightarrow> first_user_sgpr c \<le> offset"
  shows "\<exists>st. SetupSignatureFromElf c metadata registers (NullCsSignature c) perfDataInfo_Cs =
                Some (Inr st) \<and>
              length (entryToRegAddr st) = unat (MaxUserDataEntries c) \<and>
              length (mappedEntry (stage (m_signature st))) = NumMappedEntries \<and>
              (\<forall>offset \<in> set (user_data_regs c). \<forall>v.
                  registers (ucast offset) = Some v \<and> v < MaxUserDataEntries c \<longrightarrow>
                    unat v < unat (MaxUserDataEntries c) \<and> slot_of c offset < NumMappedEntries) \<and>
              unat (userSgprCount (stage (m_signature st))) \<le> 16"
proof -
  let ?mapped = "{offset \<in> set (user_data_regs c). maps_ordinal c registers offset}"
  from steps_invariant [OF c wf_signature_start subset_refl distinct_user_data_regs [OF c] ge,
      of perfDataInfo_Cs]
  obtain st where run: "SetupSignature_steps c registers (user_data_regs c)
        (signature_start c perfDataInfo_Cs) = Inr st"
    and wf: "wf_state c st"
    and cnt: "unat (userSgprCount (stage (m_signature st))) =
        Max (insert (unat (userSgprCount (stage (m_signature (signature_start c perfDataInfo_Cs)))))
               ((\<lambda>offset. slot_of c offset + 1) ` ?mapped))"
    by blast
  have slots: "slot_of c offset < 16" if "offset \<in> ?mapped" for offset
    using that ge c by (auto intro: slot_of_eq(2))
  have "Max (insert 0 ((\<lambda>offset. slot_of c offset + 1) ` ?mapped)) \<le> 16"
    using slots by (subst Max_le_iff) (auto simp add: Suc_le_eq)
  then have count: "unat (userSgprCount (stage (m_signature st))) \<le> 16"
    by (simp add: cnt signature_start_def NullCsSignature_def)
  have "\<forall>offset \<in> set (user_data_regs c). \<forall>v.
          registers (ucast offset) = Some v \<and> v < MaxUserDataEntries c \<longrightarrow>
            unat v < unat (MaxUserDataEntries c) \<and> slot_of c offset < NumMappedEntries"
    using slots by (auto simp add: maps_ordinal_def word_less_nat_alt NumMappedEntries_def)
  with run wf count show ?thesis
    by (auto simp add: SetupSignatureFromElf_steps [OF c] wf_state_def)
qed


text \<open>
  Claim C5, as amended. Let the user-data registers be contiguous, and run the extractor
  on a freshly constructed pipeline. (1) For a register-value list without user-data
  ordinals, \<open>userSgprCount\<close> is 0. (2) If the list has neither ordinals nor one of
  the sentinels for the spill table, the work-group count and the performance data
  among its user-data registers, and the metadata has neither a spill threshold nor a
  user-data limit, the extractor changes nothing but \<open>firstUserSgprRegAddr\<close>: the
  spill-table, work-group-count and performance-data addresses stay not mapped, the
  spill threshold and the entry limit keep their defaults. (3) If the ordinals 0, 1
  and 2 stand at the register offsets \<open>o0\<close>, \<open>o1\<close>, \<open>o2\<close> at or after the first
  user-data SGPR and no other user-data register holds an ordinal,
  \<open>userSgprCount\<close> is one more than the highest of the three slots
  \<open>offset - firstUserSgprRegAddr\<close>; it is 3 when the three slots are 0, 1 and 2;
  the register recorded for the ordinal \<open>i\<close> is \<open>oi\<close>, and the entry mapped to the
  slot of \<open>oi\<close> is \<open>i\<close> again.
\<close>

theorem signature_extraction:
  assumes c: "user_data_regs_contiguous c"
  shows
    "((\<forall>offset \<in> set (user_data_regs c). \<not> maps_ordinal c registers offset) \<longrightarrow>
        (\<exists>st. SetupSignatureFromElf c metadata registers (NullCsSignature c) perfDataInfo_Cs =
                 Some (Inr st) \<and>
               userSgprCount (stage (m_signature st)) = 0)) \<and>
     ((\<forall>offset \<in> set (user_data_regs c).
          \<not> maps_ordinal c registers offset \<and> \<not> maps_sentinel c registers offset) \<and>
       \<not> hasEntry_spillThreshold metadata \<and> \<not> hasEntry_userDataLimit metadata \<longrightarrow>
        SetupSignatureFromElf c metadata registers (NullCsSignature c) perfDataInfo_Cs =
          Some (Inr (signature_start c perfDataInfo_Cs))) \<and>
     (2 < MaxUserDataEntries c \<and>
      {o0, o1, o2} \<subseteq> set (user_data_regs c) \<and>
      first_user_sgpr c \<le> o0 \<and> first_user_sgpr c \<le> o1 \<and> first_user_sgpr c \<le> o2 \<and>
      registers (ucast o0) = Some 0 \<and> registers (ucast o1) = Some 1 \<and>
      registers (ucast o2) = Some 2 \<and>
      (\<forall>offset \<in> set (user_data_regs c). maps_ordinal c registers offset \<longrightarrow> offset \<in> {o0, o1, o2}) \<longrightarrow>
        (\<exists>st. SetupSignatureFromElf c metadata registers (NullCsSignature c) perfDataInfo_Cs =
                 Some (Inr st) \<and>
               unat (userSgprCount (stage (m_signature st))) =
                 max (slot_of c o0) (max (slot_of c o1) (slot_of c o2)) + 1 \<and>
               ({slot_of c o0, slot_of c o1, slot_of c o2} = {0, 1, 2} \<longrightarrow>
                  userSgprCount (stage (m_signature st)) = 3) \<and>
               entryToRegAddr st ! 0 = o0 \<and> entryToRegAddr st ! 1 = o1 \<and>
               entryToRegAddr st ! 2 = o2 \<and>
               mappedEntry (stage (m_signature st)) ! slot_of c o0 = 0 \<and>
               mappedEntry (stage (m_signature st)) ! slot_of c o1 = 1 \<and>
               mappedEntry (stage (m_signature st)) ! slot_of c o2 = 2))"
proof (intro conjI impI)
  assume none: "\<forall>offset \<in> set (user_data_regs c). \<not> maps_ordinal c registers offset"
  then have ge: "\<forall>offset \<in> set (user_data_regs c).
      maps_ordinal c registers offset \<longrightarrow> first_user_sgpr c \<le> offset"
    by simp
  from none have empty: "{offset \<in> set (user_data_regs c). maps_ordinal c registers offset} = {}"
    by simp
  from steps_invariant [OF c wf_signature_start subset_refl distinct_user_data_regs [OF c] ge,
      of perfDataInfo_Cs]
  obtain st where run: "SetupSignature_steps c registers (user_data_regs c)
        (signature_start c perfDataInfo_Cs) = Inr st"
    and cnt: "unat (userSgprCount (stage (m_signature st))) = 0"
    unfolding empty by (auto simp add: signature_start_def NullCsSignature_def)
  from cnt have "userSgprCount (stage (m_signature st)) = 0"
    by (simp add: unat_eq_0)
  with run show "\<exists>st. SetupSignatureFromElf c metadata registers (NullCsSignature c) perfDataInfo_Cs =
                 Some (Inr st) \<and> userSgprCount (stage (m_signature st)) = 0"
    by (simp add: SetupSignatureFromElf_steps [OF c])
next
  assume quiet: "(\<forall>offset \<in> set (user_data_regs c).
          \<not> maps_ordinal c registers offset \<and> \<not> maps_sentinel c registers offset) \<and>
       \<not> hasEntry_spillThreshold metadata \<and> \<not> hasEntry_userDataLimit metadata"
  then have "SetupSignature_steps c registers (user_data_regs c)
        (signature_start c perfDataInfo_Cs) = Inr (signature_start c perfDataInfo_Cs)"
    by (intro steps_no_effect) simp
  with quiet show "SetupSignatureFromElf c metadata registers (NullCsSignature c) perfDataInfo_Cs =
          Some (Inr (signature_start c perfDataInfo_Cs))"
    by (simp add: SetupSignatureFromElf_steps [OF c] signature_finish_def)
next
  assume three: "2 < MaxUserDataEntries c \<and>
      {o0, o1, o2} \<subseteq> set (user_data_regs c) \<and>
      first_user_sgpr c \<le> o0 \<and> first_user_sgpr c \<le> o1 \<and> first_user_sgpr c \<le> o2 \<and>
      registers (ucast o0) = Some 0 \<and> registers (ucast o1) = Some 1 \<and>
      registers (ucast o2) = Some 2 \<and>
      (\<forall>offset \<in> set (user_data_regs c). maps_ordinal c registers offset \<longrightarrow> offset \<in> {o0, o1, o2})"
  then have max: "0 < MaxUserDataEntries c" "1 < MaxUserDataEntries c" "2 < MaxUserDataEntries c"
    by (simp_all add: word_less_nat_alt)
  from three have range: "o0 \<in> set (user_data_regs c)" "o1 \<in> set (user_data_regs c)"
      "o2 \<in> set (user_data_regs c)"
    and first: "first_user_sgpr c \<le> o0" "first_user_sgpr c \<le> o1" "first_user_sgpr c \<le> o2"
    and regs: "registers (ucast o0) = Some 0" "registers (ucast o1) = Some 1"
      "registers (ucast o2) = Some 2"
    and only: "\<forall>offset \<in> set (user_data_regs c). maps_ordinal c registers offset \<longrightarrow> offset \<in> {o0, o1, o2}"
    by simp_all
  have ge: "\<forall>offset \<in> set (user_data_regs c).
      maps_ordinal c registers offset \<longrightarrow> first_user_sgpr c \<le> offset"
    using only first by auto
  have mapped: "{offset \<in> set (user_data_regs c). maps_ordinal c registers offset} = {o0, o1, o2}"
    using only range regs max by (auto simp add: maps_ordinal_def)
  from steps_invariant [OF c wf_signature_start subset_refl distinct_user_data_regs [OF c] ge,
      of perfDataInfo_Cs]
  obtain st where run: "SetupSignature_steps c registers (user_data_regs c)
        (signature_start c perfDataInfo_Cs) = Inr st"
    and me: "\<forall>offset \<in> set (user_data_regs c). \<forall>v.
          registers (ucast offset) = Some v \<and> v < MaxUserDataEntries c \<longrightarrow>
          mappedEntry (stage (m_signature st)) ! slot_of c offset = ucast v"
    and er: "\<forall>v. v < MaxUserDataEntries c \<and>
          (\<exists>offset \<in> set (user_data_regs c). registers (ucast offset) = Some v) \<longrightarrow>
          (\<exists>offset \<in> set (user_data_regs c). registers (ucast offset) = Some v \<and>
                               entryToRegAddr st ! unat v = offset)"
    and cnt: "unat (userSgprCount (stage (m_signature st))) =
        Max (insert 0 ((\<lambda>offset. slot_of c offset + 1) ` {o0, o1, o2}))"
    unfolding mapped by (auto simp add: signature_start_def NullCsSignature_def)
  have count: "unat (userSgprCount (stage (m_signature st))) =
      max (slot_of c o0) (max (slot_of c o1) (slot_of c o2)) + 1"
    by (simp add: cnt)
  have three_slots: "userSgprCount (stage (m_signature st)) = 3"
    if "{slot_of c o0, slot_of c o1, slot_of c o2} = {0, 1, 2}"
  proof -
    have "Max {slot_of c o0, slot_of c o1, slot_of c o2} = 2"
      by (simp only: that) simp
    then have "unat (userSgprCount (stage (m_signature st))) = 3"
      by (simp add: count)
    then show ?thesis
      by (simp add: word_unat_eq_iff)
  qed
  have slot_entry: "entryToRegAddr st ! unat v = offset"
    if "offset \<in> {o0, o1, o2}" "registers (ucast offset) = Some v" "v < MaxUserDataEntries c"
    for offset v
  proof -
    from that range er obtain offset' where o': "offset' \<in> set (user_data_regs c)"
        "registers (ucast offset') = Some v" "entryToRegAddr st ! unat v = offset'"
      by blast
    then have "offset' \<in> {o0, o1, o2}"
      using only that(3) by (simp add: maps_ordinal_def)
    with that o' regs have "offset' = offset"
      by auto
    with o' show ?thesis
      by simp
  qed
  have "entryToRegAddr st ! 0 = o0" "entryToRegAddr st ! 1 = o1" "entryToRegAddr st ! 2 = o2"
    using slot_entry [of o0 0] slot_entry [of o1 1] slot_entry [of o2 2] regs max by simp_all
  moreover have "mappedEntry (stage (m_signature st)) ! slot_of c o0 = 0"
    "mappedEntry (stage (m_signature st)) ! slot_of c o1 = 1"
    "mappedEntry (stage (m_signature st)) ! slot_of c o2 = 2"
    using me range regs max by auto
  ultimately show "\<exists>st. SetupSignatureFromElf c metadata registers (NullCsSignature c) perfDataInfo_Cs =
                 Some (Inr st) \<and>
               unat (userSgprCount (stage (m_signature st))) =
                 max (slot_of c o0) (max (slot_of c o1) (slot_of c o2)) + 1 \<and>
               ({slot_of c o0, slot_of c o1, slot_of c o2} = {0, 1, 2} \<longrightarrow>
                  userSgprCount (stage (m_signature st)) = 3) \<and>
               entryToRegAddr st ! 0 = o0 \<and> entryToRegAddr st ! 1 = o1 \<and>
               entryToRegAddr st ! 2 = o2 \<and>
               mappedEntry (stage (m_signature st)) ! slot_of c o0 = 0 \<and>
               mappedEntry (stage (m_signature st)) ! slot_of c o1 = 1 \<and>
               mappedEntry (stage (m_signature st)) ! slot_of c o2 = 2"
    using run count three_slots by (simp add: SetupSignatureFromElf_steps [OF c])
qed

text \<open>Witnesses and the counterexample for C5 and C10, on the constants of a GFX9 part.\<close>

lemma ex_contiguous: "user_data_regs_contiguous ex_consts"
  by (simp add: user_data_regs_contiguous_def ex_consts_def)

lemma ex_user_data_regs:
  "user_data_regs ex_consts =
     [0x2E40, 0x2E41, 0x2E42, 0x2E43, 0x2E44, 0x2E45, 0x2E46, 0x2E47,
      0x2E48, 0x2E49, 0x2E4A, 0x2E4B, 0x2E4C, 0x2E4D, 0x2E4E, 0x2E4F]"
  by (simp add: user_data_regs_def ex_consts_def upt_rec)

lemmas ex_signature_defs = ex_consts_def ex_registers_none_def ex_registers_first3_def
  ex_registers_gap_def ex_registers_spill_def ex_metadata_def ex_perfDataInfo_def
  maps_ordinal_def maps_sentinel_def slot_of_def first_user_sgpr_def

lemma ex_first3_ordinals:
  "filter (maps_ordinal ex_consts ex_registers_first3) (user_data_regs ex_consts) = [0x2E42, 0x2E43, 0x2E44]"
  by (simp add: ex_user_data_regs) (simp add: ex_signature_defs)

text \<open>Witness for C10: the list with the ordinals 0, 1, 2 in the first three slots.\<close>

theorem signature_extraction_in_bounds_witness:
  "\<exists>st. SetupSignatureFromElf ex_consts (ex_metadata 0) ex_registers_first3
          (NullCsSignature ex_consts) ex_perfDataInfo = Some (Inr st) \<and>
        length (entryToRegAddr st) = 16 \<and>
        length (mappedEntry (stage (m_signature st))) = 16 \<and>
        unat (userSgprCount (stage (m_signature st))) \<le> 16"
proof -
  have "\<forall>offset \<in> set (user_data_regs ex_consts).
      maps_ordinal ex_consts ex_registers_first3 offset \<longrightarrow> first_user_sgpr ex_consts \<le> offset"
    by (simp add: ex_user_data_regs) (simp add: ex_signature_defs)
  from signature_extraction_in_bounds [OF ex_contiguous this, of "ex_metadata 0" ex_perfDataInfo]
  show ?thesis
    by (auto simp add: NumMappedEntries_def ex_consts_def)
qed


text \<open>
  Witness for C5: the list without ordinals and sentinels leaves the signature as it
  is, and the list with the ordinals 0, 1, 2 in the first three slots gives
  \<open>userSgprCount = 3\<close> and the round trip.
\<close>

lemma ex_slots:
  "slot_of ex_consts 0x2E42 = 0" "slot_of ex_consts 0x2E43 = 1" "slot_of ex_consts 0x2E44 = 2"
  by (simp_all add: slot_of_def first_user_sgpr_def ex_consts_def)

theorem signature_extraction_witness:
  "(\<exists>st. SetupSignatureFromElf ex_consts (ex_metadata 0) ex_registers_none
           (NullCsSignature ex_consts) ex_perfDataInfo = Some (Inr st) \<and>
         userSgprCount (stage (m_signature st)) = 0) \<and>
   SetupSignatureFromElf ex_consts (ex_metadata 0) ex_registers_none
     (NullCsSignature ex_consts) ex_perfDataInfo =
       Some (Inr (signature_start ex_consts ex_perfDataInfo)) \<and>
   (\<exists>st. SetupSignatureFromElf ex_consts (ex_metadata 0) ex_registers_first3
           (NullCsSignature ex_consts) ex_perfDataInfo = Some (Inr st) \<and>
         userSgprCount (stage (m_signature st)) = 3 \<and>
         entryToRegAddr st ! 0 = 0x2E42 \<and> entryToRegAddr st ! 1 = 0x2E43 \<and>
         entryToRegAddr st ! 2 = 0x2E44 \<and>
         mappedEntry (stage (m_signature st)) ! 0 = 0 \<and>
         mappedEntry (stage (m_signature st)) ! 1 = 1 \<and>
         mappedEntry (stage (m_signature st)) ! 2 = 2)"
proof -
  have none: "\<forall>offset \<in> set (user_data_regs ex_consts).
      \<not> maps_ordinal ex_consts ex_registers_none offset \<and>
      \<not> maps_sentinel ex_consts ex_registers_none offset"
    by (simp add: ex_user_data_regs) (simp add: ex_signature_defs)
  have three: "2 < MaxUserDataEntries ex_consts \<and>
      {0x2E42, 0x2E43, 0x2E44} \<subseteq> set (user_data_regs ex_consts) \<and>
      first_user_sgpr ex_consts \<le> 0x2E42 \<and> first_user_sgpr ex_consts \<le> 0x2E43 \<and>
      first_user_sgpr ex_consts \<le> 0x2E44 \<and>
      ex_registers_first3 (ucast (0x2E42 :: uint16)) = Some 0 \<and>
      ex_registers_first3 (ucast (0x2E43 :: uint16)) = Some 1 \<and>
      ex_registers_first3 (ucast (0x2E44 :: uint16)) = Some 2 \<and>
      (\<forall>offset \<in> set (user_data_regs ex_consts).
          maps_ordinal ex_consts ex_registers_first3 offset \<longrightarrow> offset \<in> {0x2E42, 0x2E43, 0x2E44})"
    by (simp add: ex_user_data_regs) (simp add: ex_signature_defs)
  note quiet = signature_extraction [OF ex_contiguous, where registers = ex_registers_none
      and metadata = "ex_metadata 0" and perfDataInfo_Cs = ex_perfDataInfo]
  note mapped = signature_extraction [OF ex_contiguous, where registers = ex_registers_first3
      and metadata = "ex_metadata 0" and perfDataInfo_Cs = ex_perfDataInfo
      and ?o0.0 = "0x2E42" and ?o1.0 = "0x2E43" and ?o2.0 = "0x2E44"]
  have 1: "\<exists>st. SetupSignatureFromElf ex_consts (ex_metadata 0) ex_registers_none
           (NullCsSignature ex_consts) ex_perfDataInfo = Some (Inr st) \<and>
         userSgprCount (stage (m_signature st)) = 0"
    by (rule quiet [THEN conjunct1, THEN mp]) (use none in simp)
  have 2: "SetupSignatureFromElf ex_consts (ex_metadata 0) ex_registers_none
     (NullCsSignature ex_consts) ex_perfDataInfo =
       Some (Inr (signature_start ex_consts ex_perfDataInfo))"
    by (rule quiet [THEN conjunct2, THEN conjunct1, THEN mp]) (use none in \<open>simp add: ex_metadata_def\<close>)
  have "\<exists>st. SetupSignatureFromElf ex_consts (ex_metadata 0) ex_registers_first3
           (NullCsSignature ex_consts) ex_perfDataInfo = Some (Inr st) \<and>
         unat (userSgprCount (stage (m_signature st))) =
           max (slot_of ex_consts 0x2E42) (max (slot_of ex_consts 0x2E43) (slot_of ex_consts 0x2E44)) + 1 \<and>
         ({slot_of ex_consts 0x2E42, slot_of ex_consts 0x2E43, slot_of ex_consts 0x2E44} = {0, 1, 2} \<longrightarrow>
            userSgprCount (stage (m_signature st)) = 3) \<and>
         entryToRegAddr st ! 0 = 0x2E42 \<and> entryToRegAddr st ! 1 = 0x2E43 \<and>
         entryToRegAddr st ! 2 = 0x2E44 \<and>
         mappedEntry (stage (m_signature st)) ! slot_of ex_consts 0x2E42 = 0 \<and>
         mappedEntry (stage (m_signature st)) ! slot_of ex_consts 0x2E43 = 1 \<and>
         mappedEntry (stage (m_signature st)) ! slot_of ex_consts 0x2E44 = 2"
    by (rule mapped [THEN conjunct2, THEN conjunct2, THEN mp]) (rule three)
  then have 3: "\<exists>st. SetupSignatureFromElf ex_consts (ex_metadata 0) ex_registers_first3
           (NullCsSignature ex_consts) ex_perfDataInfo = Some (Inr st) \<and>
         userSgprCount (stage (m_signature st)) = 3 \<and>
         entryToRegAddr st ! 0 = 0x2E42 \<and> entryToRegAddr st ! 1 = 0x2E43 \<and>
         entryToRegAddr st ! 2 = 0x2E44 \<and>
         mappedEntry (stage (m_signature st)) ! 0 = 0 \<and>
         mappedEntry (stage (m_signature st)) ! 1 = 1 \<and>
         mappedEntry (stage (m_signature st)) ! 2 = 2"
    by (auto simp add: ex_slots)
  from 1 2 3 show ?thesis
    by (intro conjI)
qed

text \<open>
  Claim C5 as stated fails at two inputs. The list that maps the spill table and no
  ordinal leaves \<open>userSgprCount\<close> at 0 but sets the spill-table address to the
  register \<open>0x2E42\<close>. The list that maps the ordinals 0, 1, 2 to the distinct slots
  0, 1 and 3 yields \<open>userSgprCount = 4\<close>, not 3.
\<close>

theorem signature_extraction_counterexample:
  "filter (maps_ordinal ex_consts ex_registers_spill) (user_data_regs ex_consts) = [] \<and>
   (case SetupSignatureFromElf ex_consts (ex_metadata 0) ex_registers_spill
           (NullCsSignature ex_consts) ex_perfDataInfo of
      Some (Inr st) \<Rightarrow> userSgprCount (stage (m_signature st)) = 0 \<and>
                      spillTableRegAddr (stage (m_signature st)) = 0x2E42 \<and>
                      spillTableRegAddr (stage (m_signature st)) \<noteq> UserDataNotMapped
    | _ \<Rightarrow> False) \<and>
   filter (maps_ordinal ex_consts ex_registers_gap) (user_data_regs ex_consts) =
     [0x2E42, 0x2E43, 0x2E45] \<and>
   ex_registers_gap 0x2E42 = Some 0 \<and> ex_registers_gap 0x2E43 = Some 1 \<and>
   ex_registers_gap 0x2E45 = Some 2 \<and>
   (case SetupSignatureFromElf ex_consts (ex_metadata 0) ex_registers_gap
           (NullCsSignature ex_consts) ex_perfDataInfo of
      Some (Inr st) \<Rightarrow> userSgprCount (stage (m_signature st)) = 4
    | _ \<Rightarrow> False)"
proof -
  have run: "SetupSignatureFromElf ex_consts metadata registers (NullCsSignature ex_consts) perfDataInfo_Cs =
     (case SetupSignature_steps ex_consts registers
             [0x2E40, 0x2E41, 0x2E42, 0x2E43, 0x2E44, 0x2E45, 0x2E46, 0x2E47,
              0x2E48, 0x2E49, 0x2E4A, 0x2E4B, 0x2E4C, 0x2E4D, 0x2E4E, 0x2E4F]
             (signature_start ex_consts perfDataInfo_Cs) of
        Inl fault \<Rightarrow> Some (Inl fault)
      | Inr st \<Rightarrow> Some (Inr (signature_finish metadata st)))" for metadata registers perfDataInfo_Cs
    by (simp add: SetupSignatureFromElf_steps [OF ex_contiguous] ex_user_data_regs)
  show ?thesis
    unfolding run by code_simp
qed

section \<open>The command packet compiler\<close>

subsection \<open>The words that WriteCommands puts into the command space\<close>

text \<open>
  Consecutive writes at the cursor amount to one write of all the words, so that
  the command space after \<open>WriteCommands\<close> is the one before it with the output
  of the stream for the calls put at the write cursor.
\<close>

lemma put_words_append:
  "put_words (put_words space ws1) ws2 = put_words space (ws1 @ ws2)"
  by (cases space) (auto simp add: put_words_def nth_append fun_eq_iff)

lemma put_words_Nil:
  "put_words space [] = space"
  by (cases space) (auto simp add: put_words_def fun_eq_iff)

lemma put_words_cursor:
  "snd (put_words (mem, pos) ws) = pos + length ws"
  by (simp add: put_words_def)

lemma put_words_between:
  "words_between (fst (put_words (mem, pos) ws)) pos (pos + length ws) = ws"
  by (rule nth_equalityI) (simp_all add: words_between_def put_words_def)

lemma put_words_outside:
  "a < pos \<or> pos + length ws \<le> a \<Longrightarrow> fst (put_words (mem, pos) ws) a = mem a"
  by (auto simp add: put_words_def)

lemma perform_calls_output:
  "foldl (perform_call stream) (space, s) calls =
     (put_words space (fst (stream_output stream s calls)), snd (stream_output stream s calls))"
  by (induction stream s calls arbitrary: space rule: stream_output.induct)
     (simp_all add: put_words_append put_words_Nil)

lemma WriteCommands_output:
  "WriteCommands stream p s (mem, pos) csInfo prefetch =
     (put_words (mem, pos)
        (fst (stream_output stream s
           (WriteCommands_calls p (Pm4OptimizerEnabled stream s) (GetEngineType stream s) csInfo prefetch))),
      snd (stream_output stream s
           (WriteCommands_calls p (Pm4OptimizerEnabled stream s) (GetEngineType stream s) csInfo prefetch)),
      p)"
  by (simp add: WriteCommands_def perform_calls_output Let_def)

text \<open>
  Claim C6. Two calls of \<open>WriteCommands\<close> with the same pipeline, the same stream in
  the same state (so with the same optimizer flag and the same engine type), the same
  dispatch descriptor and the same prefetch flag, into two command spaces at two
  write cursors, advance the cursor by the same number of words, put the same words
  between the old and the new cursor, and leave the stream in the same state. The
  pipeline is after each call what it was before, and so is its dynamic image.
\<close>

theorem WriteCommands_deterministic:
  "(let r1 = WriteCommands stream p s (mem1, pos1) csInfo prefetch;
        r2 = WriteCommands stream p s (mem2, pos2) csInfo prefetch
    in snd (fst r1) - pos1 = snd (fst r2) - pos2
       \<and> words_between (fst (fst r1)) pos1 (snd (fst r1))
           = words_between (fst (fst r2)) pos2 (snd (fst r2))
       \<and> fst (snd r1) = fst (snd r2)
       \<and> snd (snd r1) = p \<and> snd (snd r2) = p
       \<and> cmd_dynamic (m_commands (snd (snd r1))) = cmd_dynamic (m_commands p))"
  by (simp add: WriteCommands_output Let_def put_words_cursor put_words_between)

subsection \<open>The encoding path\<close>







text \<open>
  The calls that the stream of the concrete inputs receives: for a pipeline with a
  load-index packet on the universal engine without and with the optimizer and on the
  compute engine, and for a pipeline without a load-index packet.
\<close>

lemma WriteCommands_example_paths:
  "map (\<lambda>stream. snd (fst (snd (WriteCommands (logging stream) (ex_compute_pipeline 0xC0036300)
                                   (0, []) (\<lambda>a. 0, 0) ex_csInfo False))))
       [ex_stream False EngineTypeUniversal, ex_stream True EngineTypeUniversal,
        ex_stream False EngineTypeCompute]
   = [[WritePm4Image 5 (ImageLoadIndex (cmd_loadIndex (m_commands (ex_compute_pipeline 0xC0036300)))),
       WritePm4Image 4 (ImageDynamic (WriteCommands_dynamicCmds (ex_compute_pipeline 0xC0036300) ex_csInfo)),
       WriteSetOneShReg_ShaderCompute 0x2E4A 0x1080],
      [WritePm4Image 12 (ImageSet (cmd_set (m_commands (ex_compute_pipeline 0xC0036300)))),
       WritePm4Image 4 (ImageDynamic (WriteCommands_dynamicCmds (ex_compute_pipeline 0xC0036300) ex_csInfo)),
       WriteSetOneShReg_ShaderCompute 0x2E4A 0x1080],
      [WritePm4Image 12 (ImageSet (cmd_set (m_commands (ex_compute_pipeline 0xC0036300)))),
       WritePm4Image 4 (ImageDynamic (WriteCommands_dynamicCmds (ex_compute_pipeline 0xC0036300) ex_csInfo)),
       WriteSetOneShReg_ShaderCompute 0x2E4A 0x1080]]
   \<and> snd (fst (snd (WriteCommands (logging (ex_stream False EngineTypeUniversal))
                       (ex_compute_pipeline 0) (0, []) (\<lambda>a. 0, 0) ex_csInfo True)))
     = [WritePm4Image 12 (ImageSet (cmd_set (m_commands (ex_compute_pipeline 0)))),
        WritePm4Image 4 (ImageDynamic (WriteCommands_dynamicCmds (ex_compute_pipeline 0) ex_csInfo)),
        WriteSetOneShReg_ShaderCompute 0x2E4A 0x1080]"
  by code_simp

text \<open>
  Both paths on the pipeline of the concrete inputs, and the words of one bind in two
  command spaces.
\<close>

lemma WriteCommands_calls_example_load_index:
  "WriteCommands_calls (ex_compute_pipeline 0xC0036300) False EngineTypeUniversal ex_csInfo False
     = [WritePm4Image 5 (ImageLoadIndex (cmd_loadIndex (m_commands (ex_compute_pipeline 0xC0036300)))),
        WritePm4Image 4 (ImageDynamic
          (ex_dynamic_zero\<lparr>hdrComputePgmRsrc2 := [0xC0017604],
             computePgmRsrc2 := \<lparr>LDS_SIZE = 2, TRAP_PRESENT = 0, rsrc2_other_bits = 0\<rparr>,
             hdrComputeResourceLimits := [0xC0017605],
             computeResourceLimits := (ex_decode_limits 0)\<lparr>WAVES_PER_SH := 6, TG_PER_CU := 15\<rparr>\<rparr>)),
        WriteSetOneShReg_ShaderCompute 0x2E4A 0x1080]"
  by code_simp

lemma WriteCommands_calls_example_set:
  "map (\<lambda>header. hd (WriteCommands_calls (ex_compute_pipeline header) False EngineTypeCompute ex_csInfo False))
       [0, 0xC0036300]
     = [WritePm4Image 12 (ImageSet (cmd_set (m_commands (ex_compute_pipeline 0)))),
        WritePm4Image 12 (ImageSet (cmd_set (m_commands (ex_compute_pipeline 0))))]"
  by code_simp

lemma WriteCommands_example:
  "(let r1 = WriteCommands (ex_stream False EngineTypeUniversal) (ex_compute_pipeline 0xC0036300) 0
               (\<lambda>a. 0, 0) ex_csInfo True;
        r2 = WriteCommands (ex_stream False EngineTypeUniversal) (ex_compute_pipeline 0xC0036300) 0
               (\<lambda>a. 0xFFFFFFFF, 100) ex_csInfo True
    in snd (fst r1) = 15 \<and> snd (fst r2) = 115
       \<and> words_between (fst (fst r1)) 0 15
           = [0xC0036300, 0x3000, 0, 0, 5, 0xC0017604, 0x10000, 0xC0017605, 0xF006,
              0xC0017600, 0x2E4A, 0x1080, 0xC0055000, 7, 8]
       \<and> words_between (fst (fst r2)) 100 115 = words_between (fst (fst r1)) 0 15
       \<and> words_between (fst (fst r2)) 98 100 = [0xFFFFFFFF, 0xFFFFFFFF])"
  by code_simp

subsection \<open>The compute-unit distribution\<close>






end
